theory Spec2Isabelle
  imports Main "HOL-Library.Monad_Syntax"
begin

section \<open>Python values, exceptions and string helpers\<close>

text \<open>
  The two source files are \<^verbatim>\<open>simplemonitor/util/__init__.py\<close> (configuration
  options, \<^verbatim>\<open>UpDownTime\<close>, the JSON codec) and
  \<^verbatim>\<open>simplemonitor/Monitors/monitor.py\<close> (the \<^verbatim>\<open>Monitor\<close> class).
  Python integers are unbounded, so they are \<^typ>\<open>int\<close>; strings are
  \<^typ>\<open>string\<close>, a character being a code point below 256. An exception is a
  value: every function that can raise returns \<open>error + 'a\<close> with \<open>Inl\<close> for the
  raised exception.
\<close>

datatype MonitorState = UNKNOWN | SKIPPED | OK | FAILED

text \<open>
  The exception classes the code raises. The message text of a configuration error is
  kept as a tag of which check failed (the texts themselves are built with Python's
  \<^verbatim>\<open>format\<close> of arbitrary values).
\<close>

datatype exc_class =
  ValueError | MonitorConfigurationError | AlerterConfigurationError
  | LoggerConfigurationError | SimpleMonitorConfigurationError

datatype problem =
  NotADict | IsMissing | CannotBeEmpty | NeedsToBeInt | NeedsToBeFloat | BelowMinimum
  | AboveMaximum | NeedsToBeIntList | NotAllowed

datatype error =
  Raised exc_class problem
  | PyValueError
  | PyTypeError
  | PyKeyError string
  | PyAttributeError string

text \<open>
  A Python float is not modelled: its type is the parameter \<open>'f\<close>, and the built-ins
  that produce or compare floats are parameters too (\<open>builtins\<close>, after the values).
\<close>

datatype 'f num = NInt int | NFloat 'f

text \<open>\<^verbatim>\<open>str.lower()\<close>, \<^verbatim>\<open>str.split(sep)\<close> with a one-character separator
  and \<^verbatim>\<open>str.strip()\<close>. Below 256 the upper-case letters are \<open>A\<close> to \<open>Z\<close> and
  the code points 192 to 222 but 215, each 32 below its lower-case letter, and the
  white space is the twelve characters of \<open>is_space\<close>.\<close>

definition lower_char :: "char \<Rightarrow> char" where
  "lower_char c =
     (let n = (of_char c :: nat) in
      if (65 \<le> n \<and> n \<le> 90) \<or> (192 \<le> n \<and> n \<le> 222 \<and> n \<noteq> 215) then char_of (n + 32)
      else c)"

definition lower :: "string \<Rightarrow> string" where
  "lower s = map lower_char s"

fun split_on :: "char \<Rightarrow> string \<Rightarrow> string list" where
  "split_on sep [] = [[]]"
| "split_on sep (c # cs) =
     (if c = sep then [] # split_on sep cs
      else (case split_on sep cs of
              w # ws \<Rightarrow> (c # w) # ws
            | [] \<Rightarrow> [[c]]))"

definition is_space :: "char \<Rightarrow> bool" where
  "is_space c \<longleftrightarrow>
     c \<in> set [CHR 0x09, CHR 0x0A, CHR 0x0B, CHR 0x0C, CHR 0x0D,
               CHR 0x1C, CHR 0x1D, CHR 0x1E, CHR 0x1F, CHR 0x20, CHR 0x85, CHR 0xA0]"

definition strip :: "string \<Rightarrow> string" where
  "strip s = rev (dropWhile is_space (rev (dropWhile is_space s)))"

text \<open>Decimal text of a number: \<^verbatim>\<open>str(n)\<close> and the formats \<^verbatim>\<open>{}\<close>,
  \<^verbatim>\<open>%d\<close>; \<open>zfill w\<close> pads with zeros on the left to width \<open>w\<close>.\<close>

definition digit_char :: "nat \<Rightarrow> char" where
  "digit_char d = ''0123456789'' ! (d mod 10)"

fun str_nat :: "nat \<Rightarrow> string" where
  "str_nat n = (if n < 10 then [digit_char n] else str_nat (n div 10) @ [digit_char n])"

declare str_nat.simps [simp del]

definition str_int :: "int \<Rightarrow> string" where
  "str_int i = (if i < 0 then CHR ''-'' # str_nat (nat (- i)) else str_nat (nat i))"

definition zfill :: "nat \<Rightarrow> string \<Rightarrow> string" where
  "zfill w s = replicate (w - length s) CHR ''0'' @ s"

text \<open>The format \<^verbatim>\<open>{:02}\<close> of an integer: zero padding to width two, the sign
  counted in the width.\<close>

definition fmt02 :: "int \<Rightarrow> string" where
  "fmt02 i = (if i < 0 then CHR ''-'' # str_nat (nat (- i)) else zfill 2 (str_nat (nat i)))"

section \<open>datetime and timedelta\<close>

text \<open>
  The standard library's \<^verbatim>\<open>datetime.datetime\<close> (naive, as
  \<^verbatim>\<open>utcnow()\<close> returns it) and \<^verbatim>\<open>datetime.timedelta\<close>. A datetime
  object always satisfies \<open>valid_datetime\<close>: its constructor refuses other field
  values. Subtracting two datetimes gives the normalised timedelta, whose
  \<^verbatim>\<open>.seconds\<close> is the seconds within the day.
\<close>

record datetime =
  year :: nat
  month :: nat
  day :: nat
  hour :: nat
  minute :: nat
  second :: nat
  microsecond :: nat

definition is_leap :: "nat \<Rightarrow> bool" where
  "is_leap y \<longleftrightarrow> y mod 4 = 0 \<and> (y mod 100 \<noteq> 0 \<or> y mod 400 = 0)"

definition days_in_month :: "nat \<Rightarrow> nat \<Rightarrow> nat" where
  "days_in_month y m =
     (if m = 2 then (if is_leap y then 29 else 28)
      else if m = 4 \<or> m = 6 \<or> m = 9 \<or> m = 11 then 30 else 31)"


definition days_before_year :: "nat \<Rightarrow> int" where
  "days_before_year y =
     (let p = int y - 1 in p * 365 + p div 4 - p div 100 + p div 400)"

definition days_before_month :: "nat \<Rightarrow> nat \<Rightarrow> nat" where
  "days_before_month y m = sum_list (map (days_in_month y) [1..<m])"

definition toordinal :: "datetime \<Rightarrow> int" where
  "toordinal d =
     days_before_year (year d) + int (days_before_month (year d) (month d)) + int (day d)"

definition total_microseconds :: "datetime \<Rightarrow> int" where
  "total_microseconds d =
     ((toordinal d * 86400 + int (hour d) * 3600 + int (minute d) * 60 + int (second d))
        * 1000000) + int (microsecond d)"

record timedelta =
  td_days :: int
  td_seconds :: int
  td_microseconds :: int

definition timedelta_of_microseconds :: "int \<Rightarrow> timedelta" where
  "timedelta_of_microseconds n =
     \<lparr>td_days = n div 86400000000,
      td_seconds = (n div 1000000) mod 86400,
      td_microseconds = n mod 1000000\<rparr>"

text \<open>\<^verbatim>\<open>a - b\<close> on two datetimes.\<close>

definition datetime_sub :: "datetime \<Rightarrow> datetime \<Rightarrow> timedelta" where
  "datetime_sub a b = timedelta_of_microseconds (total_microseconds a - total_microseconds b)"

section \<open>Python objects and the interpreter\<close>

text \<open>
  The values that reach the configuration reader and the codec: the JSON-native ones,
  a dictionary with string keys (its entries in insertion order), and the objects the
  encoder knows (\<^verbatim>\<open>datetime\<close>, \<^verbatim>\<open>MonitorState\<close>, a compiled regular
  expression); \<open>PObject c\<close> is any other object, of class \<open>c\<close>.
\<close>

datatype 'f pyval =
  PNone | PBool bool | PInt int | PFloat 'f | PStr string | PList "'f pyval list"
  | PDict "(string \<times> 'f pyval) list" | PDatetime datetime | PState MonitorState
  | PRegex | PObject string

text \<open>
  The built-ins of the interpreter that the code calls and that are taken as given:
  \<^verbatim>\<open>int(s)\<close> and \<^verbatim>\<open>float(s)\<close> on a string (\<open>None\<close> when they raise
  \<^verbatim>\<open>ValueError\<close>), and \<^verbatim>\<open><\<close> between two numbers of which one at least is
  a float. \<open>float_eq\<close> is the comparison that a membership test
  \<^verbatim>\<open>x in list\<close> makes between two such numbers (the same object, or
  \<^verbatim>\<open>==\<close>), and \<open>object_eq\<close> the one it makes when one of the two values is
  a compiled regular expression or an object of another class (the same object, or
  what \<^verbatim>\<open>__eq__\<close> of its class answers). \<open>pads_year\<close> says how the
  platform's \<^verbatim>\<open>strftime\<close> writes \<^verbatim>\<open>%Y\<close> for a year below 1000:
  padded with zeros to four digits, or as it is (the C library of Linux does not pad,
  so that year 999 is written \<open>999\<close>).
\<close>

record 'f builtins =
  py_int :: "string \<Rightarrow> int option"
  py_float :: "string \<Rightarrow> 'f option"
  float_less :: "'f num \<Rightarrow> 'f num \<Rightarrow> bool"
  float_eq :: "'f num \<Rightarrow> 'f num \<Rightarrow> bool"
  object_eq :: "'f pyval \<Rightarrow> 'f pyval \<Rightarrow> bool"
  pads_year :: bool

definition num_less :: "('f, 'x) builtins_scheme \<Rightarrow> 'f num \<Rightarrow> 'f num \<Rightarrow> bool" where
  "num_less py a b =
     (case (a, b) of
        (NInt x, NInt y) \<Rightarrow> x < y
      | _ \<Rightarrow> float_less py a b)"

section \<open>The format \<^verbatim>\<open>%Y-%m-%d %H:%M:%S.%f\<close>\<close>

text \<open>
  \<^verbatim>\<open>FORMAT = "%Y-%m-%d %H:%M:%S.%f"\<close>. \<open>strftime py d\<close> is
  \<^verbatim>\<open>d.strftime(FORMAT)\<close>: every field in decimal, zero padded to its width;
  the year has four digits from 1000 on, and below that as the platform writes it.
\<close>

definition year_text :: "('f, 'x) builtins_scheme \<Rightarrow> nat \<Rightarrow> string" where
  "year_text py y = (if pads_year py then zfill 4 (str_nat y) else str_nat y)"

definition strftime :: "('f, 'x) builtins_scheme \<Rightarrow> datetime \<Rightarrow> string" where
  "strftime py d =
     year_text py (year d) @ CHR ''-'' # zfill 2 (str_nat (month d)) @ CHR ''-'' #
     zfill 2 (str_nat (day d)) @ CHR '' '' # zfill 2 (str_nat (hour d)) @ CHR '':'' #
     zfill 2 (str_nat (minute d)) @ CHR '':'' # zfill 2 (str_nat (second d)) @ CHR ''.'' #
     zfill 6 (str_nat (microsecond d))"

definition is_digit :: "char \<Rightarrow> bool" where
  "is_digit c \<longleftrightarrow> c \<in> set ''0123456789''"

definition digit_val :: "char \<Rightarrow> nat" where
  "digit_val c =
     (case map_of (zip ''0123456789'' [0, 1, 2, 3, 4, 5, 6, 7, 8, 9]) c of
        Some v \<Rightarrow> v
      | None \<Rightarrow> 0)"

definition nat_of_digits :: "string \<Rightarrow> nat" where
  "nat_of_digits s = foldl (\<lambda>n c. 10 * n + digit_val c) 0 s"

text \<open>
  The regular expression \<^verbatim>\<open>\d{4}-\d{2}-\d{2} \d{2}:\d{2}:\d{2}\.\d{6}\<close> is a
  sequence of one-character classes, and \<^verbatim>\<open>re.match\<close> succeeds when a prefix of
  the string matches it (nothing anchors the end).
\<close>

datatype char_class = Digit | Lit char

fun class_ok :: "char_class \<Rightarrow> char \<Rightarrow> bool" where
  "class_ok Digit c = is_digit c"
| "class_ok (Lit l) c = (c = l)"

fun re_match :: "char_class list \<Rightarrow> string \<Rightarrow> bool" where
  "re_match [] s = True"
| "re_match (p # ps) [] = False"
| "re_match (p # ps) (c # cs) = (class_ok p c \<and> re_match ps cs)"

definition datetime_re :: "char_class list" where
  "datetime_re =
     replicate 4 Digit @ Lit CHR ''-'' # replicate 2 Digit @ Lit CHR ''-'' #
     replicate 2 Digit @ Lit CHR '' '' # replicate 2 Digit @ Lit CHR '':'' #
     replicate 2 Digit @ Lit CHR '':'' # replicate 2 Digit @ Lit CHR ''.'' #
     replicate 6 Digit"

text \<open>
  \<open>strptime s\<close> is \<^verbatim>\<open>datetime.strptime(s, FORMAT)\<close> for a string that starts
  with the fixed-width pattern above, which is the only kind of string the decoder
  hands to it. On such a string the library reads every field at its full width
  (month 01-12, day 01-31, hour 00-23, minute 00-59, second 00-61, six digits of
  microseconds), refuses text left over after the microseconds, and then builds the
  datetime, whose constructor refuses year 0, a day beyond the month's length and a
  second above 59. Every refusal is a \<^verbatim>\<open>ValueError\<close>.
\<close>

definition parse_field :: "nat \<Rightarrow> string \<Rightarrow> (nat \<times> string) option" where
  "parse_field w s =
     (if w \<le> length s \<and> list_all is_digit (take w s)
      then Some (nat_of_digits (take w s), drop w s) else None)"

definition expect :: "char \<Rightarrow> string \<Rightarrow> string option" where
  "expect c s = (case s of x # xs \<Rightarrow> if x = c then Some xs else None | [] \<Rightarrow> None)"

definition parse_fields :: "string \<Rightarrow> (datetime \<times> string) option" where
  "parse_fields s0 = do {
     (y, s1) \<leftarrow> parse_field 4 s0;
     s2 \<leftarrow> expect CHR ''-'' s1;
     (mo, s3) \<leftarrow> parse_field 2 s2;
     s4 \<leftarrow> expect CHR ''-'' s3;
     (d, s5) \<leftarrow> parse_field 2 s4;
     s6 \<leftarrow> expect CHR '' '' s5;
     (h, s7) \<leftarrow> parse_field 2 s6;
     s8 \<leftarrow> expect CHR '':'' s7;
     (mi, s9) \<leftarrow> parse_field 2 s8;
     s10 \<leftarrow> expect CHR '':'' s9;
     (se, s11) \<leftarrow> parse_field 2 s10;
     s12 \<leftarrow> expect CHR ''.'' s11;
     (us, s13) \<leftarrow> parse_field 6 s12;
     Some (\<lparr>year = y, month = mo, day = d, hour = h, minute = mi, second = se,
            microsecond = us\<rparr>, s13)
   }"

definition strptime :: "string \<Rightarrow> error + datetime" where
  "strptime s =
     (case parse_fields s of
        None \<Rightarrow> Inl PyValueError
      | Some (d, rest) \<Rightarrow>
          if rest \<noteq> [] then Inl PyValueError
          else if 1 \<le> month d \<and> month d \<le> 12 \<and> 1 \<le> day d \<and> day d \<le> 31 \<and>
                  hour d \<le> 23 \<and> minute d \<le> 59 \<and> second d \<le> 61 \<and>
                  1 \<le> year d \<and> day d \<le> days_in_month (year d) (month d) \<and>
                  second d \<le> 59
          then Inr d else Inl PyValueError)"

section \<open>JSON documents\<close>

text \<open>
  A JSON document is its tree, the members of an object in the order of the text. The
  text itself (the standard library's writer and parser, and the ASCII bytes) is not
  modelled.
\<close>

datatype 'f json =
  JNull | JBool bool | JInt int | JFloat 'f | JStr string | JArr "'f json list"
  | JObj "(string \<times> 'f json) list"

text \<open>\<^verbatim>\<open>d[k] = v\<close> on an insertion-ordered dictionary, and \<^verbatim>\<open>dict(pairs)\<close>.\<close>

fun dict_set :: "(string \<times> 'v) list \<Rightarrow> string \<Rightarrow> 'v \<Rightarrow> (string \<times> 'v) list" where
  "dict_set [] k v = [(k, v)]"
| "dict_set ((k', v') # d) k v = (if k' = k then (k, v) # d else (k', v') # dict_set d k v)"

definition dict_of :: "(string \<times> 'v) list \<Rightarrow> (string \<times> 'v) list" where
  "dict_of pairs = foldl (\<lambda>d kv. dict_set d (fst kv) (snd kv)) [] pairs"

section \<open>util: UpDownTime\<close>

record UpDownTime =
  days :: int
  hours :: int
  minutes :: int
  seconds :: int

text \<open>\<^verbatim>\<open>UpDownTime.__str__\<close>: \<^verbatim>\<open>"{}+{:02}:{:02}:{:02}"\<close>.\<close>

definition UpDownTime_str :: "UpDownTime \<Rightarrow> string" where
  "UpDownTime_str u =
     str_int (days u) @ CHR ''+'' # fmt02 (hours u) @ CHR '':'' # fmt02 (minutes u) @
     CHR '':'' # fmt02 (seconds u)"

text \<open>\<^verbatim>\<open>divmod(a, b)\<close> for a positive \<open>b\<close>.\<close>

definition divmod :: "int \<Rightarrow> int \<Rightarrow> int \<times> int" where
  "divmod a b = (a div b, a mod b)"

definition from_timedelta :: "timedelta option \<Rightarrow> UpDownTime" where
  "from_timedelta td_opt =
     (case td_opt of
        None \<Rightarrow> \<lparr>days = 0, hours = 0, minutes = 0, seconds = 0\<rparr>
      | Some td \<Rightarrow>
          (let downtime_seconds = td_seconds td;
               (hours, downtime_seconds) =
                 (if downtime_seconds > 3600 then divmod downtime_seconds 3600
                  else (0, downtime_seconds));
               (minutes, downtime_seconds) =
                 (if downtime_seconds > 60 then divmod downtime_seconds 60
                  else (0, downtime_seconds))
           in \<lparr>days = td_days td, hours = hours, minutes = minutes,
               seconds = downtime_seconds\<rparr>))"

section \<open>util: get\_config\_option\<close>

text \<open>
  The keyword arguments, with the defaults of \<^verbatim>\<open>kwargs.get\<close> in \<open>no_kwargs\<close>.
  \<open>required_type\<close> is a string, the empty string standing for any false value;
  \<open>allowed_values\<close> is a list of values when given; \<open>minimum\<close> and
  \<open>maximum\<close> are numbers when given.
\<close>

record 'f kwargs =
  exception :: exc_class
  default_value :: "'f pyval"
  required :: bool
  required_type :: string
  allowed_values :: "'f pyval list option"
  allow_empty :: bool
  minimum :: "'f num option"
  maximum :: "'f num option"

definition no_kwargs :: "'f kwargs" where
  "no_kwargs =
     \<lparr>exception = ValueError, default_value = PNone, required = False,
      required_type = ''str'', allowed_values = None, allow_empty = True,
      minimum = None, maximum = None\<rparr>"

text \<open>
  \<^verbatim>\<open>a == b\<close> as a membership test applies it. A comparison with a compiled
  expression or an object of another class is the interpreter's. Otherwise a Boolean is
  the integer 1 or 0, and numbers are compared by value; two lists are equal when they
  have the same length and equal elements; two dictionaries when they have the same
  number of keys and every key of the first has an equal value in the second; any
  other two values when they are the same value.
\<close>

definition is_object :: "'f pyval \<Rightarrow> bool" where
  "is_object v = (case v of PRegex \<Rightarrow> True | PObject _ \<Rightarrow> True | _ \<Rightarrow> False)"

definition as_num :: "'f pyval \<Rightarrow> 'f num option" where
  "as_num v =
     (case v of
        PBool b \<Rightarrow> Some (NInt (if b then 1 else 0))
      | PInt i \<Rightarrow> Some (NInt i)
      | PFloat x \<Rightarrow> Some (NFloat x)
      | _ \<Rightarrow> None)"

definition num_eq :: "('f, 'x) builtins_scheme \<Rightarrow> 'f num \<Rightarrow> 'f num \<Rightarrow> bool" where
  "num_eq py a b =
     (case (a, b) of
        (NInt x, NInt y) \<Rightarrow> x = y
      | _ \<Rightarrow> float_eq py a b)"

fun py_eq :: "('f, 'x) builtins_scheme \<Rightarrow> 'f pyval \<Rightarrow> 'f pyval \<Rightarrow> bool"
  and py_eq_list :: "('f, 'x) builtins_scheme \<Rightarrow> 'f pyval list \<Rightarrow> 'f pyval list \<Rightarrow> bool"
  and py_eq_items ::
    "('f, 'x) builtins_scheme \<Rightarrow> (string \<times> 'f pyval) list \<Rightarrow> (string \<times> 'f pyval) list
       \<Rightarrow> bool"
where
  "py_eq py (PList xs) w =
     (case w of
        PList ys \<Rightarrow> py_eq_list py xs ys
      | _ \<Rightarrow> is_object w \<and> object_eq py (PList xs) w)"
| "py_eq py (PDict a) w =
     (case w of
        PDict b \<Rightarrow> length a = length b \<and> py_eq_items py a b
      | _ \<Rightarrow> is_object w \<and> object_eq py (PDict a) w)"
| "py_eq py v w =
     (if is_object v \<or> is_object w then object_eq py v w
      else if as_num v \<noteq> None \<and> as_num w \<noteq> None
      then num_eq py (the (as_num v)) (the (as_num w))
      else v = w)"
| "py_eq_list py [] ys = (ys = [])"
| "py_eq_list py (x # xs) ys =
     (case ys of y # ys' \<Rightarrow> py_eq py x y \<and> py_eq_list py xs ys' | [] \<Rightarrow> False)"
| "py_eq_items py [] b = True"
| "py_eq_items py (kv # a) b =
     (case map_of b (fst kv) of
        Some w \<Rightarrow> py_eq py (snd kv) w \<and> py_eq_items py a b
      | None \<Rightarrow> False)"

text \<open>\<^verbatim>\<open>x in allowed_values\<close>.\<close>

definition py_in :: "('f, 'x) builtins_scheme \<Rightarrow> 'f pyval \<Rightarrow> 'f pyval list \<Rightarrow> bool" where
  "py_in py v allowed = list_ex (\<lambda>e. py_eq py e v) allowed"

text \<open>The range checks on a number parsed from the option's text.\<close>

definition check_range ::
  "('f, 'x) builtins_scheme \<Rightarrow> 'f kwargs \<Rightarrow> 'f num \<Rightarrow> error + unit" where
  "check_range py kw n =
     (if minimum kw \<noteq> None \<and> num_less py n (the (minimum kw))
      then Inl (Raised (exception kw) BelowMinimum)
      else if maximum kw \<noteq> None \<and> num_less py (the (maximum kw)) n
      then Inl (Raised (exception kw) AboveMaximum)
      else Inr ())"

text \<open>\<^verbatim>\<open>[int(x) for x in value.split(",")]\<close>; \<open>None\<close> when one of them raises.\<close>

fun int_list :: "('f, 'x) builtins_scheme \<Rightarrow> string list \<Rightarrow> int list option" where
  "int_list py [] = Some []"
| "int_list py (x # xs) =
     (case py_int py x of
        None \<Rightarrow> None
      | Some i \<Rightarrow> (case int_list py xs of None \<Rightarrow> None | Some is \<Rightarrow> Some (i # is)))"

text \<open>The block under \<^verbatim>\<open>if isinstance(value, str) and required_type:\<close>, for
  the string \<open>s\<close>.\<close>

definition convert_str ::
  "('f, 'x) builtins_scheme \<Rightarrow> 'f kwargs \<Rightarrow> string \<Rightarrow> error + 'f pyval" where
  "convert_str py kw s =
     (let rt = required_type kw in
      if rt = ''str'' \<and> s = [] \<and> \<not> allow_empty kw
      then Inl (Raised (exception kw) CannotBeEmpty)
      else if rt = ''int'' then
        (case py_int py s of
           None \<Rightarrow> Inl (Raised (exception kw) NeedsToBeInt)
         | Some i \<Rightarrow>
             (case check_range py kw (NInt i) of Inl e \<Rightarrow> Inl e | Inr _ \<Rightarrow> Inr (PInt i)))
      else if rt = ''float'' then
        (case py_float py s of
           None \<Rightarrow> Inl (Raised (exception kw) NeedsToBeFloat)
         | Some x \<Rightarrow>
             (case check_range py kw (NFloat x) of Inl e \<Rightarrow> Inl e | Inr _ \<Rightarrow> Inr (PFloat x)))
      else if rt = ''[int]'' then
        (case int_list py (split_on CHR '','' s) of
           None \<Rightarrow> Inl (Raised (exception kw) NeedsToBeIntList)
         | Some is \<Rightarrow> Inr (PList (map PInt is)))
      else if rt = ''bool'' then Inr (PBool (lower s \<in> set [''1'', ''true'', ''yes'']))
      else if rt = ''[str]'' then Inr (PList (map (\<lambda>x. PStr (strip x)) (split_on CHR '','' s)))
      else Inr (PStr s))"

text \<open>The final check against \<^verbatim>\<open>allowed_values\<close>.\<close>

definition check_allowed ::
  "('f, 'x) builtins_scheme \<Rightarrow> 'f kwargs \<Rightarrow> 'f pyval \<Rightarrow> error + 'f pyval" where
  "check_allowed py kw v =
     (case v of
        PList xs \<Rightarrow>
          (if allowed_values kw \<noteq> None \<and> the (allowed_values kw) \<noteq> []
           then (if \<not> list_all (\<lambda>x. py_in py x (the (allowed_values kw))) xs
                 then Inl (Raised (exception kw) NotAllowed) else Inr v)
           else (if allowed_values kw \<noteq> None \<and> \<not> py_in py v (the (allowed_values kw))
                 then Inl (Raised (exception kw) NotAllowed) else Inr v))
      | _ \<Rightarrow>
          (if allowed_values kw \<noteq> None \<and> \<not> py_in py v (the (allowed_values kw))
           then Inl (Raised (exception kw) NotAllowed) else Inr v))"

text \<open>
  \<^verbatim>\<open>get_config_option\<close>. \<open>config_options\<close> is any value: the first check
  refuses what is not a dictionary.
\<close>

definition get_config_option ::
  "('f, 'x) builtins_scheme \<Rightarrow> 'f pyval \<Rightarrow> string \<Rightarrow> 'f kwargs \<Rightarrow> error + 'f pyval" where
  "get_config_option py config_options key kw =
     (case config_options of
        PDict items \<Rightarrow>
          (let v = (case map_of items key of Some x \<Rightarrow> x | None \<Rightarrow> default_value kw) in
           if required kw \<and> v = PNone then Inl (Raised (exception kw) IsMissing)
           else
             (case (case v of
                      PStr s \<Rightarrow> if required_type kw \<noteq> [] then convert_str py kw s else Inr v
                    | _ \<Rightarrow> Inr v) of
                Inl e \<Rightarrow> Inl e
              | Inr v' \<Rightarrow> check_allowed py kw v'))
      | _ \<Rightarrow> Inl (Raised (exception kw) NotADict))"

text \<open>\<^verbatim>\<open>short_hostname\<close>, for the machine's host name \<open>h\<close>.\<close>

definition short_hostname :: "string \<Rightarrow> string" where
  "short_hostname h = (case split_on CHR ''.'' (h @ ''.'') of w # _ \<Rightarrow> w | [] \<Rightarrow> [])"

section \<open>util: the JSON codec\<close>

definition DATETIME_MAGIC_TOKEN :: string where
  "DATETIME_MAGIC_TOKEN = ''__simplemonitor_datetime''"

definition MONITORSTATE_MAGIC_TOKEN :: string where
  "MONITORSTATE_MAGIC_TOKEN = ''__simplemonitor_monitorstate''"

text \<open>\<^verbatim>\<open>obj.name\<close> of an enum member, and the lookup
  \<^verbatim>\<open>MonitorState[name]\<close>, which raises \<^verbatim>\<open>KeyError\<close> on an unknown name.\<close>

fun state_name :: "MonitorState \<Rightarrow> string" where
  "state_name UNKNOWN = ''UNKNOWN''"
| "state_name SKIPPED = ''SKIPPED''"
| "state_name OK = ''OK''"
| "state_name FAILED = ''FAILED''"

definition state_by_name :: "string \<Rightarrow> error + MonitorState" where
  "state_by_name n =
     (case map_of [(''UNKNOWN'', UNKNOWN), (''SKIPPED'', SKIPPED), (''OK'', OK),
                   (''FAILED'', FAILED)] n of
        Some st \<Rightarrow> Inr st
      | None \<Rightarrow> Inl (PyKeyError n))"

text \<open>\<^verbatim>\<open>JSONEncoder.default\<close>: the replacement for an object the writer cannot
  serialise; the base class raises \<^verbatim>\<open>TypeError\<close>.\<close>

fun default :: "('f, 'x) builtins_scheme \<Rightarrow> 'f pyval \<Rightarrow> error + 'f pyval" where
  "default py (PDatetime d) = Inr (PDict [(DATETIME_MAGIC_TOKEN, PStr (strftime py d))])"
| "default py PRegex = Inr (PStr ''<removed compiled regexp object>'')"
| "default py (PState st) = Inr (PDict [(MONITORSTATE_MAGIC_TOKEN, PStr (state_name st))])"
| "default py obj = Inl PyTypeError"

text \<open>
  The writer: native values go to the document as they are, every other object goes
  through \<open>default\<close> and its replacement is written in turn. \<open>weight\<close> is the
  measure under which this recursion ends.
\<close>

fun weight :: "'f pyval \<Rightarrow> nat"
  and weight_list :: "'f pyval list \<Rightarrow> nat"
  and weight_items :: "(string \<times> 'f pyval) list \<Rightarrow> nat" where
  "weight (PList xs) = Suc (weight_list xs)"
| "weight (PDict kvs) = Suc (weight_items kvs)"
| "weight (PDatetime d) = 4"
| "weight (PState st) = 4"
| "weight PRegex = 4"
| "weight v = 1"
| "weight_list [] = 0"
| "weight_list (x # xs) = Suc (weight x + weight_list xs)"
| "weight_items [] = 0"
| "weight_items (kv # kvs) = Suc (weight (snd kv) + weight_items kvs)"

function encode :: "('f, 'x) builtins_scheme \<Rightarrow> 'f pyval \<Rightarrow> error + 'f json"
  and encode_list :: "('f, 'x) builtins_scheme \<Rightarrow> 'f pyval list \<Rightarrow> error + 'f json list"
  and encode_items ::
    "('f, 'x) builtins_scheme \<Rightarrow> (string \<times> 'f pyval) list
       \<Rightarrow> error + (string \<times> 'f json) list"
where
  "encode py PNone = Inr JNull"
| "encode py (PBool b) = Inr (JBool b)"
| "encode py (PInt i) = Inr (JInt i)"
| "encode py (PFloat x) = Inr (JFloat x)"
| "encode py (PStr s) = Inr (JStr s)"
| "encode py (PList xs) =
     (case encode_list py xs of Inl e \<Rightarrow> Inl e | Inr js \<Rightarrow> Inr (JArr js))"
| "encode py (PDict kvs) =
     (case encode_items py kvs of Inl e \<Rightarrow> Inl e | Inr js \<Rightarrow> Inr (JObj js))"
| "encode py (PDatetime d) =
     (case default py (PDatetime d) of Inl e \<Rightarrow> Inl e | Inr v \<Rightarrow> encode py v)"
| "encode py (PState st) =
     (case default py (PState st) of Inl e \<Rightarrow> Inl e | Inr v \<Rightarrow> encode py v)"
| "encode py PRegex = (case default py PRegex of Inl e \<Rightarrow> Inl e | Inr v \<Rightarrow> encode py v)"
| "encode py (PObject c) =
     (case default py (PObject c) of Inl e \<Rightarrow> Inl e | Inr v \<Rightarrow> encode py v)"
| "encode_list py [] = Inr []"
| "encode_list py (x # xs) =
     (case encode py x of
        Inl e \<Rightarrow> Inl e
      | Inr j \<Rightarrow> (case encode_list py xs of Inl e \<Rightarrow> Inl e | Inr js \<Rightarrow> Inr (j # js)))"
| "encode_items py [] = Inr []"
| "encode_items py (kv # kvs) =
     (case encode py (snd kv) of
        Inl e \<Rightarrow> Inl e
      | Inr j \<Rightarrow>
          (case encode_items py kvs of
             Inl e \<Rightarrow> Inl e
           | Inr js \<Rightarrow> Inr ((fst kv, j) # js)))"
  by pat_completeness auto
termination
  by (relation "measure (case_sum (\<lambda>(py, v). weight v)
                  (case_sum (\<lambda>(py, vs). weight_list vs) (\<lambda>(py, kvs). weight_items kvs)))")
     auto

text \<open>
  \<^verbatim>\<open>JSONDecoder.object_pairs_hook\<close>, called by the parser on the list of
  (key, decoded value) pairs of every object of the document, innermost first.
  \<open>orig\<close> is the hook given to the constructor, if any.
\<close>

definition is_str :: "'f pyval \<Rightarrow> bool" where
  "is_str v = (case v of PStr _ \<Rightarrow> True | _ \<Rightarrow> False)"

definition str_of :: "'f pyval \<Rightarrow> string" where
  "str_of v = (case v of PStr s \<Rightarrow> s | _ \<Rightarrow> [])"

definition object_pairs_hook ::
  "((string \<times> 'f pyval) list \<Rightarrow> error + 'f pyval) option \<Rightarrow> (string \<times> 'f pyval) list
     \<Rightarrow> error + 'f pyval" where
  "object_pairs_hook orig obj =
     (if length obj = 1 \<and> fst (hd obj) = DATETIME_MAGIC_TOKEN \<and> is_str (snd (hd obj)) \<and>
         re_match datetime_re (str_of (snd (hd obj)))
      then (case strptime (str_of (snd (hd obj))) of
              Inl e \<Rightarrow> Inl e
            | Inr d \<Rightarrow> Inr (PDatetime d))
      else if length obj = 1 \<and> fst (hd obj) = MONITORSTATE_MAGIC_TOKEN \<and> is_str (snd (hd obj))
      then (case state_by_name (str_of (snd (hd obj))) of
              Inl e \<Rightarrow> Inl e
            | Inr st \<Rightarrow> Inr (PState st))
      else (case orig of
              Some hook \<Rightarrow> hook obj
            | None \<Rightarrow> Inr (PDict (dict_of obj))))"

text \<open>The parser with the hook installed.\<close>

fun decode ::
    "((string \<times> 'f pyval) list \<Rightarrow> error + 'f pyval) option \<Rightarrow> 'f json \<Rightarrow> error + 'f pyval"
  and decode_list ::
    "((string \<times> 'f pyval) list \<Rightarrow> error + 'f pyval) option \<Rightarrow> 'f json list
       \<Rightarrow> error + 'f pyval list"
  and decode_pairs ::
    "((string \<times> 'f pyval) list \<Rightarrow> error + 'f pyval) option \<Rightarrow> (string \<times> 'f json) list
       \<Rightarrow> error + (string \<times> 'f pyval) list"
where
  "decode orig JNull = Inr PNone"
| "decode orig (JBool b) = Inr (PBool b)"
| "decode orig (JInt i) = Inr (PInt i)"
| "decode orig (JFloat x) = Inr (PFloat x)"
| "decode orig (JStr s) = Inr (PStr s)"
| "decode orig (JArr js) =
     (case decode_list orig js of Inl e \<Rightarrow> Inl e | Inr vs \<Rightarrow> Inr (PList vs))"
| "decode orig (JObj kjs) =
     (case decode_pairs orig kjs of Inl e \<Rightarrow> Inl e | Inr kvs \<Rightarrow> object_pairs_hook orig kvs)"
| "decode_list orig [] = Inr []"
| "decode_list orig (j # js) =
     (case decode orig j of
        Inl e \<Rightarrow> Inl e
      | Inr v \<Rightarrow> (case decode_list orig js of Inl e \<Rightarrow> Inl e | Inr vs \<Rightarrow> Inr (v # vs)))"
| "decode_pairs orig [] = Inr []"
| "decode_pairs orig (kj # kjs) =
     (case decode orig (snd kj) of
        Inl e \<Rightarrow> Inl e
      | Inr v \<Rightarrow>
          (case decode_pairs orig kjs of
             Inl e \<Rightarrow> Inl e
           | Inr kvs \<Rightarrow> Inr ((fst kj, v) # kvs)))"


definition json_loads :: "'f json \<Rightarrow> error + 'f pyval" where
  "json_loads doc = decode None doc"

section \<open>Monitors: the Monitor class\<close>

text \<open>
  The attributes of a \<^verbatim>\<open>Monitor\<close> object, without the leading underscore of the
  private ones, and without the logger (a handle of the process, left out of the
  serialised state by the code as well). \<open>last_run\<close> is \<open>None\<close> as long as the
  attribute \<^verbatim>\<open>_last_run\<close> has not been assigned: the constructor does not create
  it, \<^verbatim>\<open>should_run\<close> does. The other optional fields hold Python's
  \<^verbatim>\<open>None\<close> as \<open>None\<close>.
\<close>

record Monitor =
  config_options :: "(string \<times> string) list"
  name :: string
  deps :: "string list"
  dependencies :: "string list"
  urgent :: bool
  notify :: bool
  group :: string
  tolerance :: int
  remote_alerting :: bool
  recover_command :: "string option"
  recovered_command :: "string option"
  recover_info :: string
  recovered_info :: string
  minimum_gap :: int
  failure_doc :: "string option"
  running_on :: string
  state :: MonitorState
  force_run :: bool
  first_load :: "datetime option"
  last_run :: "int option"
  last_result :: string
  error_count :: int
  failed_at :: "datetime option"
  success_count :: int
  tests_run :: int
  last_error_count :: int
  last_run_duration :: int
  skip_dep :: "string option"
  failures :: int
  last_failure :: "datetime option"
  uptime_start :: "datetime option"
  last_update :: "datetime option"
  unavailable_seconds :: int

text \<open>
  The clock: \<open>clk k\<close> is what the \<open>k\<close>-th call of
  \<^verbatim>\<open>datetime.datetime.utcnow()\<close> returns during one call of a method (counted
  from 0). The world outside the object is an argument in the same way: the host name,
  the epoch seconds \<^verbatim>\<open>int(time.time())\<close>, and the outcome of running a command.
\<close>

type_synonym clock = "nat \<Rightarrow> datetime"

text \<open>Sequencing of calls that may raise.\<close>

definition and_then :: "error + 'a \<Rightarrow> ('a \<Rightarrow> error + 'b) \<Rightarrow> error + 'b" where
  "and_then r f = (case r of Inl e \<Rightarrow> Inl e | Inr v \<Rightarrow> f v)"

text \<open>
  The options of a monitor are the strings of its section of the configuration file
  (\<^verbatim>\<open>get_config_dict\<close> returns \<^verbatim>\<open>Dict[str, str]\<close>), so what
  \<^verbatim>\<open>get_config_option\<close> returns has the type its call asks for, and the functions
  below read it.
\<close>

definition as_bool :: "'f pyval \<Rightarrow> bool" where
  "as_bool v = (case v of PBool b \<Rightarrow> b | _ \<Rightarrow> False)"

definition as_int :: "'f pyval \<Rightarrow> int" where
  "as_int v = (case v of PInt i \<Rightarrow> i | _ \<Rightarrow> 0)"

definition as_str_option :: "'f pyval \<Rightarrow> string option" where
  "as_str_option v = (case v of PStr s \<Rightarrow> Some s | _ \<Rightarrow> None)"

definition as_str_list :: "'f pyval \<Rightarrow> string list" where
  "as_str_list v = (case v of PList xs \<Rightarrow> map str_of xs | _ \<Rightarrow> [])"

text \<open>\<^verbatim>\<open>Monitor.get_config_option\<close>: the exception is
  \<^verbatim>\<open>MonitorConfigurationError\<close>.\<close>

definition Monitor_get_config_option ::
  "('f, 'x) builtins_scheme \<Rightarrow> (string \<times> string) list \<Rightarrow> string \<Rightarrow> 'f kwargs
     \<Rightarrow> error + 'f pyval" where
  "Monitor_get_config_option py cfg key kw =
     get_config_option py (PDict (map (\<lambda>(k, v). (k, PStr v)) cfg)) key
       (kw\<lparr>exception := MonitorConfigurationError\<rparr>)"

text \<open>The setter of \<^verbatim>\<open>minimum_gap\<close>, on an integer.\<close>

definition set_minimum_gap :: "int \<Rightarrow> error + int" where
  "set_minimum_gap gap = (if gap < 0 then Inl PyValueError else Inr gap)"

text \<open>
  \<^verbatim>\<open>Monitor.__init__\<close>, with the class attributes as the initial values of the
  counters. \<open>host\<close> is \<^verbatim>\<open>socket.gethostname()\<close>.
\<close>

definition Monitor_init ::
  "('f, 'x) builtins_scheme \<Rightarrow> string \<Rightarrow> clock \<Rightarrow> string \<Rightarrow> (string \<times> string) list
     \<Rightarrow> error + Monitor" where
  "Monitor_init py host clk nm cfg =
     and_then (Monitor_get_config_option py cfg ''depend''
                 (no_kwargs\<lparr>required_type := ''[str]'', default_value := PList []\<rparr>))
     (\<lambda>v_depend.
     and_then (Monitor_get_config_option py cfg ''urgent''
                 (no_kwargs\<lparr>required_type := ''bool'', default_value := PBool True\<rparr>))
     (\<lambda>v_urgent.
     and_then (Monitor_get_config_option py cfg ''notify''
                 (no_kwargs\<lparr>required_type := ''bool'', default_value := PBool True\<rparr>))
     (\<lambda>v_notify.
     and_then (Monitor_get_config_option py cfg ''group''
                 (no_kwargs\<lparr>default_value := PStr ''default''\<rparr>))
     (\<lambda>v_group.
     and_then (Monitor_get_config_option py cfg ''tolerance''
                 (no_kwargs\<lparr>required_type := ''int'', default_value := PInt 0,
                    minimum := Some (NInt 0)\<rparr>))
     (\<lambda>v_tolerance.
     and_then (Monitor_get_config_option py cfg ''remote_alert''
                 (no_kwargs\<lparr>required_type := ''bool'', default_value := PBool False\<rparr>))
     (\<lambda>v_remote.
     and_then (Monitor_get_config_option py cfg ''recover_command'' no_kwargs)
     (\<lambda>v_recover.
     and_then (Monitor_get_config_option py cfg ''recovered_command'' no_kwargs)
     (\<lambda>v_recovered.
     and_then (Monitor_get_config_option py cfg ''gap''
                 (no_kwargs\<lparr>required_type := ''int'', minimum := Some (NInt 0),
                    default_value := PInt 0\<rparr>))
     (\<lambda>v_gap.
     and_then (set_minimum_gap (as_int v_gap))
     (\<lambda>gap.
     and_then (Monitor_get_config_option py cfg ''failure_doc''
                 (no_kwargs\<lparr>default_value := PNone\<rparr>))
     (\<lambda>v_doc.
       Inr \<lparr>config_options = cfg, name = nm, deps = [],
            dependencies = as_str_list v_depend, urgent = as_bool v_urgent,
            notify = as_bool v_notify, group = str_of v_group,
            tolerance = as_int v_tolerance, remote_alerting = as_bool v_remote,
            recover_command = as_str_option v_recover,
            recovered_command = as_str_option v_recovered,
            recover_info = [], recovered_info = [], minimum_gap = gap,
            failure_doc = as_str_option v_doc, running_on = short_hostname host,
            state = UNKNOWN, force_run = True, first_load = Some (clk 0),
            last_run = None, last_result = [], error_count = 0, failed_at = None,
            success_count = 0, tests_run = 0, last_error_count = 0,
            last_run_duration = 0, skip_dep = None, failures = 0, last_failure = None,
            uptime_start = None, last_update = None,
            unavailable_seconds = 0\<rparr>)))))))))))"

subsection \<open>Queries\<close>

definition virtual_fail_count :: "Monitor \<Rightarrow> int" where
  "virtual_fail_count m = (let vfs = error_count m - tolerance m in max vfs 0)"

definition test_success :: "Monitor \<Rightarrow> bool" where
  "test_success m \<longleftrightarrow> \<not> (virtual_fail_count m \<noteq> 0)"

definition first_failure :: "Monitor \<Rightarrow> bool" where
  "first_failure m = (if error_count m = tolerance m + 1 then True else False)"

definition last_virtual_fail_count :: "Monitor \<Rightarrow> int" where
  "last_virtual_fail_count m = (let v = last_error_count m - tolerance m in max 0 v)"

definition all_better_now :: "Monitor \<Rightarrow> bool" where
  "all_better_now m =
     (if last_virtual_fail_count m \<noteq> 0 \<and> success_count m = 1 \<and> \<not> state m = SKIPPED
      then True else False)"

definition skipped :: "Monitor \<Rightarrow> bool" where
  "skipped m = (if state m = SKIPPED then True else False)"

definition get_success_count :: "Monitor \<Rightarrow> int" where
  "get_success_count m = (if tests_run m = 0 then 0 else success_count m)"

definition first_failure_time :: "Monitor \<Rightarrow> datetime option" where
  "first_failure_time m = failed_at m"

definition uptime :: "clock \<Rightarrow> Monitor \<Rightarrow> timedelta option" where
  "uptime clk m =
     (case uptime_start m of Some t \<Rightarrow> Some (datetime_sub (clk 0) t) | None \<Rightarrow> None)"

definition get_downtime :: "clock \<Rightarrow> Monitor \<Rightarrow> UpDownTime" where
  "get_downtime clk m =
     (case first_failure_time m of
        None \<Rightarrow> \<lparr>days = 0, hours = 0, minutes = 0, seconds = 0\<rparr>
      | Some t \<Rightarrow> from_timedelta (Some (datetime_sub (clk 0) t)))"

definition get_uptime :: "clock \<Rightarrow> Monitor \<Rightarrow> UpDownTime" where
  "get_uptime clk m =
     (case uptime clk m of
        None \<Rightarrow> \<lparr>days = 0, hours = 0, minutes = 0, seconds = 0\<rparr>
      | Some td \<Rightarrow> from_timedelta (Some td))"

subsection \<open>Dependencies\<close>

definition reset_dependencies :: "Monitor \<Rightarrow> Monitor" where
  "reset_dependencies m = m\<lparr>deps := dependencies m\<rparr>"

definition dependency_succeeded :: "string \<Rightarrow> Monitor \<Rightarrow> Monitor" where
  "dependency_succeeded dependency m = m\<lparr>deps := remove1 dependency (deps m)\<rparr>"

subsection \<open>Recording results\<close>

text \<open>\<^verbatim>\<open>_add_unavailable_seconds\<close>; \<open>k\<close> counts the clock readings of the
  enclosing call so far, and the new count is returned with the object.\<close>

definition add_unavailable_seconds :: "clock \<Rightarrow> nat \<Rightarrow> Monitor \<Rightarrow> Monitor \<times> nat" where
  "add_unavailable_seconds clk k m =
     (if last_update m \<noteq> None \<and> success_count m = 0
      then (let unavailable_delta = datetime_sub (clk k) (the (last_update m))
            in (m\<lparr>unavailable_seconds :=
                     unavailable_seconds m + td_seconds unavailable_delta\<rparr>, Suc k))
      else (m, k))"

definition record_fail :: "clock \<Rightarrow> string \<Rightarrow> Monitor \<Rightarrow> bool \<times> Monitor" where
  "record_fail clk message m0 =
     (let m1 = m0\<lparr>error_count := error_count m0 + 1\<rparr>;
          (m2, k) = add_unavailable_seconds clk 0 m1;
          m3 = m2\<lparr>last_update := Some (clk k), last_result := message\<rparr>;
          m4 = (if virtual_fail_count m3 = 1
                then m3\<lparr>failed_at := Some (clk (k + 1)),
                         last_failure := Some (clk (k + 2)),
                         failures := failures m3 + 1,
                         state := FAILED\<rparr>
                else m3)
      in (False, m4\<lparr>success_count := 0, tests_run := tests_run m4 + 1,
                      uptime_start := None\<rparr>))"

definition record_success :: "clock \<Rightarrow> string \<Rightarrow> Monitor \<Rightarrow> bool \<times> Monitor" where
  "record_success clk message m0 =
     (let m1 = (if error_count m0 > 0 then m0\<lparr>last_error_count := error_count m0\<rparr> else m0);
          (m2, k1) = (if uptime_start m1 = None
                      then (m1\<lparr>uptime_start := Some (clk 0)\<rparr>, Suc 0) else (m1, 0));
          (m3, k2) = add_unavailable_seconds clk k1 m2
      in (True, m3\<lparr>state := OK, error_count := 0, last_update := Some (clk k2),
                     success_count := success_count m3 + 1,
                     tests_run := tests_run m3 + 1, last_result := message\<rparr>))"

definition record_skip :: "clock \<Rightarrow> string option \<Rightarrow> Monitor \<Rightarrow> bool \<times> Monitor" where
  "record_skip clk which_dep m0 =
     (let m1 = (case which_dep of
                  Some dep \<Rightarrow> (snd (record_success clk [] m0))\<lparr>skip_dep := Some dep\<rparr>
                | None \<Rightarrow> m0)
      in (True, m1\<lparr>state := SKIPPED\<rparr>))"

subsection \<open>The scheduling gate\<close>

text \<open>\<^verbatim>\<open>should_run\<close>; \<open>now\<close> is \<^verbatim>\<open>int(time.time())\<close>. Reading
  \<^verbatim>\<open>self._last_run\<close> before any assignment raises \<^verbatim>\<open>AttributeError\<close>.\<close>

definition should_run :: "int \<Rightarrow> Monitor \<Rightarrow> error + bool \<times> Monitor" where
  "should_run now m =
     (if force_run m then Inr (True, m\<lparr>force_run := False, last_run := Some now\<rparr>)
      else if minimum_gap m = 0 then Inr (True, m\<lparr>last_run := Some now\<rparr>)
      else if error_count m > 0 then Inr (True, m\<lparr>last_run := Some now\<rparr>)
      else (case last_run m of
              None \<Rightarrow> Inl (PyAttributeError ''_last_run'')
            | Some lr \<Rightarrow>
                if lr = 0 then Inr (True, m\<lparr>last_run := Some now\<rparr>)
                else (let gap = now - lr in
                      if gap \<ge> minimum_gap m then Inr (True, m\<lparr>last_run := Some now\<rparr>)
                      else Inr (False, m))))"

subsection \<open>The recovery hooks\<close>

text \<open>
  What happens when the command is started:
  \<^verbatim>\<open>subprocess.Popen(argv)\<close> and \<^verbatim>\<open>p.wait()\<close> give a return code, or an
  exception is raised, whose text is kept.
\<close>

datatype proc_result = Returned int | LaunchError string

definition attempt_recover :: "(string list \<Rightarrow> proc_result) \<Rightarrow> Monitor \<Rightarrow> Monitor" where
  "attempt_recover run m =
     (case recover_command m of
        None \<Rightarrow> m\<lparr>recover_info := []\<rparr>
      | Some cmd \<Rightarrow>
          if \<not> first_failure m then m
          else (case run (split_on CHR '' '' cmd) of
                  Returned rc \<Rightarrow>
                    m\<lparr>recover_info := ''Command executed and returned '' @ str_int rc\<rparr>
                | LaunchError e \<Rightarrow> m\<lparr>recover_info := ''Unable to run command: '' @ e\<rparr>))"

definition run_recovered :: "(string list \<Rightarrow> proc_result) \<Rightarrow> Monitor \<Rightarrow> Monitor" where
  "run_recovered run m =
     (case recovered_command m of
        None \<Rightarrow> m\<lparr>recovered_info := []\<rparr>
      | Some cmd \<Rightarrow>
          if all_better_now m
          then (case run (split_on CHR '' '' cmd) of
                  Returned rc \<Rightarrow>
                    m\<lparr>recovered_info := ''Command executed and returned '' @ str_int rc\<rparr>
                | LaunchError e \<Rightarrow> m\<lparr>recovered_info := ''Unable to run command: '' @ e\<rparr>)
          else m)"

subsection \<open>Runs of operations\<close>

text \<open>
  One scheduling tick changes a monitor by one of these calls; a run is a list of them,
  each with the clock it reads.
\<close>

datatype operation =
  RecordFail clock string
  | RecordSuccess clock string
  | RecordSkip clock "string option"

fun apply_operation :: "operation \<Rightarrow> Monitor \<Rightarrow> Monitor" where
  "apply_operation (RecordFail clk msg) m = snd (record_fail clk msg m)"
| "apply_operation (RecordSuccess clk msg) m = snd (record_success clk msg m)"
| "apply_operation (RecordSkip clk dep) m = snd (record_skip clk dep m)"

definition run_operations :: "operation list \<Rightarrow> Monitor \<Rightarrow> Monitor" where
  "run_operations ops m = foldl (\<lambda>s operation. apply_operation operation s) m ops"

text \<open>
  The calls that change a monitor from one tick to the next: the three record
  operations, the scheduling gate at the epoch second it reads, the two hooks with the
  outcome of starting their command, and the two methods that maintain the remaining
  dependencies. A history is a list of them, run from the state the constructor
  built; it stops at the first call that raises. (The property setters, for
  \<^verbatim>\<open>dependencies\<close>, \<^verbatim>\<open>minimum_gap\<close>, \<^verbatim>\<open>notify\<close> and
  \<^verbatim>\<open>urgent\<close>, assign to their own field only and are not part of a history.)
\<close>

datatype call =
  Record operation
  | ShouldRun int
  | AttemptRecover "string list \<Rightarrow> proc_result"
  | RunRecovered "string list \<Rightarrow> proc_result"
  | ResetDependencies
  | DependencySucceeded string

fun apply_call :: "call \<Rightarrow> Monitor \<Rightarrow> error + Monitor" where
  "apply_call (Record operation) m = Inr (apply_operation operation m)"
| "apply_call (ShouldRun now) m = and_then (should_run now m) (\<lambda>r. Inr (snd r))"
| "apply_call (AttemptRecover run) m = Inr (attempt_recover run m)"
| "apply_call (RunRecovered run) m = Inr (run_recovered run m)"
| "apply_call ResetDependencies m = Inr (reset_dependencies m)"
| "apply_call (DependencySucceeded dependency) m = Inr (dependency_succeeded dependency m)"

fun run_calls :: "call list \<Rightarrow> Monitor \<Rightarrow> error + Monitor" where
  "run_calls [] m = Inr m"
| "run_calls (c # cs) m = and_then (apply_call c m) (run_calls cs)"

definition history ::
  "('f, 'x) builtins_scheme \<Rightarrow> string \<Rightarrow> clock \<Rightarrow> string \<Rightarrow> (string \<times> string) list
     \<Rightarrow> call list \<Rightarrow> error + Monitor" where
  "history py host clk nm cfg cs = and_then (Monitor_init py host clk nm cfg) (run_calls cs)"

section \<open>Example values\<close>

text \<open>
  A concrete interpreter and a concrete monitor, on which the theorems below are
  evaluated. \<open>plain_int\<close> reads a decimal literal with an optional sign, as
  \<^verbatim>\<open>int()\<close> does on such a text, and refuses every other text (some of which
  \<^verbatim>\<open>int()\<close> reads: white space around the literal, underscores between
  digits); the example has no floats, takes an object to equal no value, and does
  not pad the year.
\<close>

definition plain_int :: "string \<Rightarrow> int option" where
  "plain_int s =
     (case s of
        [] \<Rightarrow> None
      | c # cs \<Rightarrow>
          if c = CHR ''-'' \<or> c = CHR ''+'' then
            (if cs \<noteq> [] \<and> list_all is_digit cs
             then Some ((if c = CHR ''-'' then - 1 else 1) * int (nat_of_digits cs))
             else None)
          else if list_all is_digit s then Some (int (nat_of_digits s)) else None)"

definition example_builtins :: "unit builtins" where
  "example_builtins =
     \<lparr>py_int = plain_int, py_float = (\<lambda>s. None), float_less = (\<lambda>a b. False),
      float_eq = (\<lambda>a b. False), object_eq = (\<lambda>a b. False), pads_year = False\<rparr>"

definition example_time :: datetime where
  "example_time =
     \<lparr>year = 2020, month = 1, day = 1, hour = 0, minute = 0, second = 0,
      microsecond = 0\<rparr>"

definition example_clock :: clock where
  "example_clock k = example_time\<lparr>microsecond := k\<rparr>"

definition example_config :: "(string \<times> string) list" where
  "example_config = [(''tolerance'', ''2''), (''gap'', ''10''), (''depend'', ''db'')]"

definition example_monitor :: Monitor where
  "example_monitor =
     \<lparr>config_options = example_config, name = ''web'', deps = [],
      dependencies = [''db''], urgent = True, notify = True, group = ''default'',
      tolerance = 2, remote_alerting = False, recover_command = None,
      recovered_command = None, recover_info = [], recovered_info = [],
      minimum_gap = 10, failure_doc = None, running_on = ''box'', state = UNKNOWN,
      force_run = True, first_load = Some example_time, last_run = None,
      last_result = [], error_count = 0, failed_at = None, success_count = 0,
      tests_run = 0, last_error_count = 0, last_run_duration = 0, skip_dep = None,
      failures = 0, last_failure = None, uptime_start = None, last_update = None,
      unavailable_seconds = 0\<rparr>"

text \<open>
  A clock that reads second \<open>n\<close> of the example day; the first tick of the example
  monitor followed by three failures one second apart; and the state they lead to.
\<close>

definition tick :: "nat \<Rightarrow> clock" where
  "tick n k = example_time\<lparr>second := n\<rparr>"

definition three_failures :: "operation list" where
  "three_failures =
     [RecordFail (tick 1) ''down'', RecordFail (tick 2) ''down'', RecordFail (tick 3) ''down'']"

definition example_failed :: Monitor where
  "example_failed =
     example_monitor\<lparr>state := FAILED, force_run := False, last_run := Some 1000,
       last_result := ''down'', error_count := 3, failed_at := Some (tick 3 0),
       tests_run := 3, failures := 1, last_failure := Some (tick 3 0),
       last_update := Some (tick 3 0), unavailable_seconds := 2\<rparr>"

text \<open>The example monitor with a recover command, after its first tick and one
  failure.\<close>

definition example_config_recover :: "(string \<times> string) list" where
  "example_config_recover = example_config @ [(''recover_command'', ''restart web'')]"

definition example_failing_once :: Monitor where
  "example_failing_once =
     example_monitor\<lparr>config_options := example_config_recover,
       recover_command := Some ''restart web'', force_run := False, last_run := Some 1000,
       last_result := ''down'', error_count := 1, tests_run := 1,
       last_update := Some (tick 1 0)\<rparr>"

section \<open>Predicates of the specification and invariants\<close>

text \<open>A streak of failures: one \<^verbatim>\<open>record_fail\<close> per entry of the list.\<close>

definition fail_streak :: "(clock \<times> string) list \<Rightarrow> operation list" where
  "fail_streak evs = map (\<lambda>(clk, msg). RecordFail clk msg) evs"

text \<open>The invariant of the data model: with no failure counted, the state is not
  \<open>FAILED\<close>.\<close>

definition state_invariant :: "Monitor \<Rightarrow> bool" where
  "state_invariant m \<longleftrightarrow>
     (error_count m = 0 \<longrightarrow> state m = OK \<or> state m = SKIPPED \<or> state m = UNKNOWN)"

definition failed_beyond_tolerance :: "Monitor \<Rightarrow> bool" where
  "failed_beyond_tolerance m \<longleftrightarrow> (state m = FAILED \<longrightarrow> error_count m > tolerance m)"

text \<open>What a run preserves: the error count is not negative, and a failed state has a
  positive error count that exceeds the tolerance.\<close>

definition counters_invariant :: "Monitor \<Rightarrow> bool" where
  "counters_invariant m \<longleftrightarrow>
     0 \<le> error_count m \<and>
     (state m = FAILED \<longrightarrow> 0 < error_count m \<and> tolerance m < error_count m)"

text \<open>
  \<^verbatim>\<open>should_run\<close> reads \<^verbatim>\<open>_last_run\<close> only after \<^verbatim>\<open>_force_run\<close> was
  found false, and \<^verbatim>\<open>_force_run\<close> is set by the constructor and cleared by the
  very branch that assigns \<^verbatim>\<open>_last_run\<close>. So in every state that the constructor
  and the methods produce the attribute exists when it is read.
\<close>

definition run_stamped :: "Monitor \<Rightarrow> bool" where
  "run_stamped m \<longleftrightarrow> force_run m \<or> last_run m \<noteq> None"

text \<open>
  Without a command, each hook assigns the empty string to its info field. Since the
  constructor leaves both fields empty and a hook writes its field only when its
  command is configured, the assignment changes nothing in the states that the
  constructor and the methods produce.
\<close>

definition hooks_invariant :: "Monitor \<Rightarrow> bool" where
  "hooks_invariant m \<longleftrightarrow>
     (recover_command m = None \<longrightarrow> recover_info m = []) \<and>
     (recovered_command m = None \<longrightarrow> recovered_info m = [])"

text \<open>The decomposition as the specification words it: hours are the seconds within
  the day divided by 3600, minutes the remainder divided by 60, seconds what is
  left.\<close>

definition claimed_decomposition :: "timedelta \<Rightarrow> UpDownTime" where
  "claimed_decomposition td =
     \<lparr>days = td_days td, hours = td_seconds td div 3600,
      minutes = (td_seconds td mod 3600) div 60,
      seconds = (td_seconds td mod 3600) mod 60\<rparr>"

definition one_hour :: timedelta where
  "one_hour = \<lparr>td_days = 0, td_seconds = 3600, td_microseconds = 0\<rparr>"



text \<open>
  The options are a dictionary, whose items the key is looked up in, or another value.
  The conditions under which the specification lets the function fail are on the value
  \<open>v\<close> found for the key (the default when the key is absent): required and
  missing; a text that does not parse as the required type; a parsed number outside
  the range; a value not among the allowed ones. \<open>converted\<close> is the value after
  the conversion to the required type.
\<close>

definition is_dict :: "'f pyval \<Rightarrow> bool" where
  "is_dict v = (case v of PDict _ \<Rightarrow> True | _ \<Rightarrow> False)"

definition items_of :: "'f pyval \<Rightarrow> (string \<times> 'f pyval) list" where
  "items_of v = (case v of PDict items \<Rightarrow> items | _ \<Rightarrow> [])"

definition resolved_value :: "'f pyval \<Rightarrow> string \<Rightarrow> 'f kwargs \<Rightarrow> 'f pyval" where
  "resolved_value opts key kw =
     (case map_of (items_of opts) key of Some x \<Rightarrow> x | None \<Rightarrow> default_value kw)"

definition missing_required :: "'f kwargs \<Rightarrow> 'f pyval \<Rightarrow> bool" where
  "missing_required kw v \<longleftrightarrow> required kw \<and> v = PNone"

definition parse_fails :: "('f, 'x) builtins_scheme \<Rightarrow> 'f kwargs \<Rightarrow> 'f pyval \<Rightarrow> bool" where
  "parse_fails py kw v \<longleftrightarrow>
     is_str v \<and>
     (required_type kw = ''int'' \<and> py_int py (str_of v) = None
      \<or> required_type kw = ''float'' \<and> py_float py (str_of v) = None
      \<or> required_type kw = ''[int]'' \<and>
          list_ex (\<lambda>x. py_int py x = None) (split_on CHR '','' (str_of v)))"

definition outside_range :: "('f, 'x) builtins_scheme \<Rightarrow> 'f kwargs \<Rightarrow> 'f num \<Rightarrow> bool" where
  "outside_range py kw n \<longleftrightarrow>
     (case minimum kw of Some lo \<Rightarrow> num_less py n lo | None \<Rightarrow> False)
     \<or> (case maximum kw of Some hi \<Rightarrow> num_less py hi n | None \<Rightarrow> False)"

definition out_of_range :: "('f, 'x) builtins_scheme \<Rightarrow> 'f kwargs \<Rightarrow> 'f pyval \<Rightarrow> bool" where
  "out_of_range py kw v \<longleftrightarrow>
     is_str v \<and>
     (required_type kw = ''int'' \<and>
        (case py_int py (str_of v) of Some i \<Rightarrow> outside_range py kw (NInt i) | None \<Rightarrow> False)
      \<or> required_type kw = ''float'' \<and>
        (case py_float py (str_of v) of
           Some x \<Rightarrow> outside_range py kw (NFloat x)
         | None \<Rightarrow> False))"

definition converted :: "('f, 'x) builtins_scheme \<Rightarrow> 'f kwargs \<Rightarrow> 'f pyval \<Rightarrow> 'f pyval" where
  "converted py kw v =
     (if \<not> is_str v then v
      else if required_type kw = ''int'' then
        (case py_int py (str_of v) of Some i \<Rightarrow> PInt i | None \<Rightarrow> v)
      else if required_type kw = ''float'' then
        (case py_float py (str_of v) of Some x \<Rightarrow> PFloat x | None \<Rightarrow> v)
      else if required_type kw = ''[int]'' then
        (case int_list py (split_on CHR '','' (str_of v)) of
           Some is \<Rightarrow> PList (map PInt is)
         | None \<Rightarrow> v)
      else if required_type kw = ''bool''
        then PBool (lower (str_of v) \<in> set [''1'', ''true'', ''yes''])
      else if required_type kw = ''[str]''
        then PList (map (\<lambda>x. PStr (strip x)) (split_on CHR '','' (str_of v)))
      else v)"

definition is_list :: "'f pyval \<Rightarrow> bool" where
  "is_list v = (case v of PList _ \<Rightarrow> True | _ \<Rightarrow> False)"

definition list_of :: "'f pyval \<Rightarrow> 'f pyval list" where
  "list_of v = (case v of PList xs \<Rightarrow> xs | _ \<Rightarrow> [])"

definition not_allowed :: "('f, 'x) builtins_scheme \<Rightarrow> 'f kwargs \<Rightarrow> 'f pyval \<Rightarrow> bool" where
  "not_allowed py kw v \<longleftrightarrow>
     (case allowed_values kw of
        None \<Rightarrow> False
      | Some allowed \<Rightarrow>
          if is_list v \<and> allowed \<noteq> [] then list_ex (\<lambda>x. \<not> py_in py x allowed) (list_of v)
          else \<not> py_in py v allowed)"

definition claimed_raise ::
  "('f, 'x) builtins_scheme \<Rightarrow> 'f pyval \<Rightarrow> string \<Rightarrow> 'f kwargs \<Rightarrow> bool" where
  "claimed_raise py opts key kw \<longleftrightarrow>
     (let v = resolved_value opts key kw in
      missing_required kw v \<or> parse_fails py kw v \<or> out_of_range py kw v \<or>
      not_allowed py kw (converted py kw v))"

text \<open>The check that the specification's list leaves out: an empty text for a
  string option that must not be empty. (The other check outside the list, that the
  options are a dictionary at all, is \<open>is_dict\<close>.)\<close>

definition empty_refused :: "'f kwargs \<Rightarrow> 'f pyval \<Rightarrow> bool" where
  "empty_refused kw v \<longleftrightarrow> v = PStr [] \<and> required_type kw = ''str'' \<and> \<not> allow_empty kw"

section \<open>Facts about the operations\<close>

lemma split_on_nonempty: "split_on sep s \<noteq> []"
  by (induction s) (auto split: list.splits)

lemma example_monitor_constructed:
  "Monitor_init example_builtins ''box.example.org'' example_clock ''web'' example_config
     = Inr example_monitor"
  by code_simp

lemma add_unavailable_seconds_frame:
  "error_count (fst (add_unavailable_seconds clk k m)) = error_count m"
  "tolerance (fst (add_unavailable_seconds clk k m)) = tolerance m"
  "state (fst (add_unavailable_seconds clk k m)) = state m"
  "success_count (fst (add_unavailable_seconds clk k m)) = success_count m"
  "tests_run (fst (add_unavailable_seconds clk k m)) = tests_run m"
  "last_error_count (fst (add_unavailable_seconds clk k m)) = last_error_count m"
  "failures (fst (add_unavailable_seconds clk k m)) = failures m"
  "failed_at (fst (add_unavailable_seconds clk k m)) = failed_at m"
  "last_failure (fst (add_unavailable_seconds clk k m)) = last_failure m"
  "skip_dep (fst (add_unavailable_seconds clk k m)) = skip_dep m"
  by (simp_all add: add_unavailable_seconds_def Let_def)

lemma record_fail_fields:
  "fst (record_fail clk msg m) = False"
  "error_count (snd (record_fail clk msg m)) = error_count m + 1"
  "tolerance (snd (record_fail clk msg m)) = tolerance m"
  "success_count (snd (record_fail clk msg m)) = 0"
  "tests_run (snd (record_fail clk msg m)) = tests_run m + 1"
  "last_error_count (snd (record_fail clk msg m)) = last_error_count m"
  "state (snd (record_fail clk msg m)) =
     (if error_count m + 1 - tolerance m = 1 then FAILED else state m)"
  by (simp_all add: record_fail_def Let_def split_beta virtual_fail_count_def
        add_unavailable_seconds_frame max_def)

lemma record_success_fields:
  "fst (record_success clk msg m) = True"
  "error_count (snd (record_success clk msg m)) = 0"
  "tolerance (snd (record_success clk msg m)) = tolerance m"
  "success_count (snd (record_success clk msg m)) = success_count m + 1"
  "tests_run (snd (record_success clk msg m)) = tests_run m + 1"
  "last_error_count (snd (record_success clk msg m)) =
     (if error_count m > 0 then error_count m else last_error_count m)"
  "state (snd (record_success clk msg m)) = OK"
  "failures (snd (record_success clk msg m)) = failures m"
  "failed_at (snd (record_success clk msg m)) = failed_at m"
  "last_failure (snd (record_success clk msg m)) = last_failure m"
  "last_result (snd (record_success clk msg m)) = msg"
  by (simp_all add: record_success_def Let_def split_beta add_unavailable_seconds_frame)

lemma record_success_last_update:
  "last_update (snd (record_success clk msg m)) =
     Some (clk ((if uptime_start m = None then 1 else 0) +
                (if last_update m \<noteq> None \<and> success_count m = 0 then 1 else 0)))"
  by (auto simp add: record_success_def Let_def split_beta add_unavailable_seconds_def)

lemma record_skip_fields:
  "fst (record_skip clk dep m) = True"
  "state (snd (record_skip clk dep m)) = SKIPPED"
  "tolerance (snd (record_skip clk dep m)) = tolerance m"
  "error_count (snd (record_skip clk dep m)) = (if dep = None then error_count m else 0)"
  by (simp_all add: record_skip_def Let_def record_success_fields split: option.splits)

lemma run_operations_snoc:
  "run_operations (ops @ [operation]) m = apply_operation operation (run_operations ops m)"
  by (simp add: run_operations_def)

lemma run_operations_Cons:
  "run_operations (operation # ops) m = run_operations ops (apply_operation operation m)"
  by (simp add: run_operations_def)

lemma run_operations_Nil: "run_operations [] m = m"
  by (simp add: run_operations_def)

lemma apply_operation_tolerance: "tolerance (apply_operation operation m) = tolerance m"
  by (cases operation)
     (simp_all add: record_fail_fields record_success_fields record_skip_fields)

lemma run_operations_tolerance: "tolerance (run_operations ops m) = tolerance m"
  by (induction ops arbitrary: m) (simp_all add: run_operations_Nil run_operations_Cons
        apply_operation_tolerance)

lemma fail_streak_error_count:
  "error_count (run_operations (fail_streak evs) m) = error_count m + int (length evs)"
  by (induction evs arbitrary: m)
     (simp_all add: fail_streak_def run_operations_Nil run_operations_Cons
        record_fail_fields split_beta)

lemma fail_streak_success_count:
  "evs \<noteq> [] \<Longrightarrow> success_count (run_operations (fail_streak evs) m) = 0"
  by (induction evs rule: rev_induct)
     (simp_all add: fail_streak_def run_operations_snoc record_fail_fields split_beta)

section \<open>The tolerance counters\<close>

text \<open>
  Claim C1. In every state, and so after any run of recorded results,
  \<^verbatim>\<open>virtual_fail_count()\<close> is \<open>max (error_count - tolerance) 0\<close>,
  \<^verbatim>\<open>test_success()\<close> holds exactly when that count is 0, and
  \<^verbatim>\<open>first_failure()\<close> holds exactly when \<open>error_count = tolerance + 1\<close>. For a
  monitor of tolerance 2 with no failure counted yet, a streak of one or two
  \<^verbatim>\<open>record_fail\<close> calls leaves the virtual fail count at 0, the third makes it 1,
  and \<^verbatim>\<open>first_failure()\<close> holds after the third call of the streak and after no
  other.
\<close>

theorem tolerance_counts:
  "virtual_fail_count (run_operations ops m0) =
     max (error_count (run_operations ops m0) - tolerance m0) 0
   \<and> (test_success (run_operations ops m0) \<longleftrightarrow>
        virtual_fail_count (run_operations ops m0) = 0)
   \<and> (first_failure (run_operations ops m0) \<longleftrightarrow>
        error_count (run_operations ops m0) = tolerance m0 + 1)
   \<and> (tolerance m = 2 \<and> error_count m = 0 \<longrightarrow>
        (length evs = 1 \<or> length evs = 2 \<longrightarrow>
           virtual_fail_count (run_operations (fail_streak evs) m) = 0)
        \<and> (length evs = 3 \<longrightarrow>
           virtual_fail_count (run_operations (fail_streak evs) m) = 1)
        \<and> (first_failure (run_operations (fail_streak evs) m) \<longleftrightarrow> length evs = 3))"
proof -
  have general: "virtual_fail_count s = max (error_count s - tolerance s) 0"
    "test_success s \<longleftrightarrow> virtual_fail_count s = 0"
    "first_failure s \<longleftrightarrow> error_count s = tolerance s + 1" for s
    by (simp_all add: virtual_fail_count_def test_success_def first_failure_def)
  have streak: "error_count (run_operations (fail_streak evs) m) - tolerance m
                  = int (length evs) - 2"
    if "tolerance m = 2" "error_count m = 0"
    using that by (simp add: fail_streak_error_count)
  show ?thesis
    using streak
    by (auto simp add: general run_operations_tolerance fail_streak_error_count)
qed

theorem tolerance_counts_witness:
  "tolerance example_monitor = 2 \<and> error_count example_monitor = 0
   \<and> virtual_fail_count (run_operations
        (fail_streak [(example_clock, ''down''), (example_clock, ''down'')])
        example_monitor) = 0
   \<and> virtual_fail_count (run_operations
        (fail_streak [(example_clock, ''down''), (example_clock, ''down''),
                      (example_clock, ''down'')])
        example_monitor) = 1
   \<and> first_failure (run_operations
        (fail_streak [(example_clock, ''down''), (example_clock, ''down''),
                      (example_clock, ''down'')])
        example_monitor)"
  using
    tolerance_counts [of "[]" example_monitor example_monitor
      "[(example_clock, ''down''), (example_clock, ''down'')]"]
    tolerance_counts [of "[]" example_monitor example_monitor
      "[(example_clock, ''down''), (example_clock, ''down''), (example_clock, ''down'')]"]
  by (simp add: example_monitor_def)

section \<open>Skips\<close>

text \<open>
  Claim C4. \<^verbatim>\<open>record_skip(dep)\<close> with a dependency name does all of
  \<^verbatim>\<open>record_success()\<close> (which leaves the state at \<open>OK\<close>, the error count at 0,
  one more success and one more test counted, and \<open>last_update\<close> at a reading of the
  clock), then stores the name in \<open>skip_dep\<close>, sets the state to \<open>SKIPPED\<close> and
  returns true. The count of failure episodes and their timestamps stay as they were.
\<close>

theorem record_skip_with_dependency:
  "record_skip clk (Some dep) m =
     (True, (snd (record_success clk [] m))\<lparr>skip_dep := Some dep, state := SKIPPED\<rparr>)
   \<and> state (snd (record_success clk [] m)) = OK
   \<and> fst (record_skip clk (Some dep) m) = True
   \<and> state (snd (record_skip clk (Some dep) m)) = SKIPPED
   \<and> skip_dep (snd (record_skip clk (Some dep) m)) = Some dep
   \<and> error_count (snd (record_skip clk (Some dep) m)) = 0
   \<and> success_count (snd (record_skip clk (Some dep) m)) = success_count m + 1
   \<and> tests_run (snd (record_skip clk (Some dep) m)) = tests_run m + 1
   \<and> last_update (snd (record_skip clk (Some dep) m)) =
        Some (clk ((if uptime_start m = None then 1 else 0) +
                   (if last_update m \<noteq> None \<and> success_count m = 0 then 1 else 0)))
   \<and> failures (snd (record_skip clk (Some dep) m)) = failures m
   \<and> failed_at (snd (record_skip clk (Some dep) m)) = failed_at m
   \<and> last_failure (snd (record_skip clk (Some dep) m)) = last_failure m"
  by (simp add: record_skip_def record_success_fields record_success_last_update)

text \<open>
  Claim C10. \<^verbatim>\<open>record_skip(None)\<close> sets the state to \<open>SKIPPED\<close>, returns true
  and changes no other field: no success is recorded.
\<close>

theorem record_skip_without_dependency:
  "record_skip clk None m = (True, m\<lparr>state := SKIPPED\<rparr>)
   \<and> error_count (snd (record_skip clk None m)) = error_count m
   \<and> success_count (snd (record_skip clk None m)) = success_count m
   \<and> tests_run (snd (record_skip clk None m)) = tests_run m
   \<and> last_update (snd (record_skip clk None m)) = last_update m
   \<and> skip_dep (snd (record_skip clk None m)) = skip_dep m"
  by (simp add: record_skip_def)

section \<open>The recovery edge\<close>

text \<open>
  Claim C5. \<^verbatim>\<open>all_better_now()\<close> holds exactly when
  \<open>max (last_error_count - tolerance) 0 > 0\<close>, \<open>success_count = 1\<close> and the state is
  not \<open>SKIPPED\<close>. For tolerance 2, after a streak of three \<^verbatim>\<open>record_fail\<close> calls
  it does not hold, after the \<^verbatim>\<open>record_success\<close> that follows it holds, and after
  a second \<^verbatim>\<open>record_success\<close> it does not; it holds after no failure at all.
\<close>

theorem just_recovered:
  "(all_better_now m \<longleftrightarrow>
      max (last_error_count m - tolerance m) 0 > 0 \<and> success_count m = 1 \<and> state m \<noteq> SKIPPED)
   \<and> (evs \<noteq> [] \<longrightarrow> \<not> all_better_now (run_operations (fail_streak evs) m))
   \<and> (tolerance m = 2 \<and> error_count m = 0 \<and> length evs = 3 \<longrightarrow>
        all_better_now (snd (record_success clk1 msg1 (run_operations (fail_streak evs) m)))
        \<and> \<not> all_better_now (snd (record_success clk2 msg2
              (snd (record_success clk1 msg1 (run_operations (fail_streak evs) m))))))"
proof -
  have iff: "all_better_now s \<longleftrightarrow>
      max (last_error_count s - tolerance s) 0 > 0 \<and> success_count s = 1 \<and> state s \<noteq> SKIPPED"
    for s
    by (auto simp add: all_better_now_def last_virtual_fail_count_def max_def)
  have failing: "\<not> all_better_now (run_operations (fail_streak evs) m)" if "evs \<noteq> []"
    using that by (simp add: iff fail_streak_success_count)
  have recovered:
    "all_better_now (snd (record_success clk1 msg1 (run_operations (fail_streak evs) m)))"
    "\<not> all_better_now (snd (record_success clk2 msg2
          (snd (record_success clk1 msg1 (run_operations (fail_streak evs) m)))))"
    if "tolerance m = 2" "error_count m = 0" "length evs = 3"
  proof -
    from that have "evs \<noteq> []" by auto
    then have sc: "success_count (run_operations (fail_streak evs) m) = 0"
      by (rule fail_streak_success_count)
    have ec: "error_count (run_operations (fail_streak evs) m) = 3"
      using that by (simp add: fail_streak_error_count)
    show "all_better_now (snd (record_success clk1 msg1 (run_operations (fail_streak evs) m)))"
      using that sc ec by (simp add: iff record_success_fields run_operations_tolerance)
    show "\<not> all_better_now (snd (record_success clk2 msg2
          (snd (record_success clk1 msg1 (run_operations (fail_streak evs) m)))))"
      using sc by (simp add: iff record_success_fields)
  qed
  show ?thesis
    using iff [of m] failing recovered by blast
qed

theorem just_recovered_witness:
  "tolerance example_monitor = 2 \<and> error_count example_monitor = 0
   \<and> \<not> all_better_now (run_operations
        (fail_streak [(example_clock, ''down''), (example_clock, ''down''),
                      (example_clock, ''down'')]) example_monitor)
   \<and> all_better_now (snd (record_success example_clock ''up'' (run_operations
        (fail_streak [(example_clock, ''down''), (example_clock, ''down''),
                      (example_clock, ''down'')]) example_monitor)))
   \<and> \<not> all_better_now (snd (record_success example_clock ''up''
        (snd (record_success example_clock ''up'' (run_operations
          (fail_streak [(example_clock, ''down''), (example_clock, ''down''),
                        (example_clock, ''down'')]) example_monitor)))))"
  using just_recovered [of example_monitor
      "[(example_clock, ''down''), (example_clock, ''down''), (example_clock, ''down'')]"
      example_clock "''up''" example_clock "''up''"]
  by (simp add: example_monitor_def)

section \<open>The state invariant\<close>

lemma and_then_Inr: "and_then r f = Inr y \<longleftrightarrow> (\<exists>v. r = Inr v \<and> f v = Inr y)"
  by (cases r) (simp_all add: and_then_def)

lemma Monitor_init_fields:
  assumes "Monitor_init py host clk nm cfg = Inr m0"
  shows "error_count m0 = 0" "state m0 = UNKNOWN" "force_run m0" "recover_info m0 = []"
    "recovered_info m0 = []" "success_count m0 = 0" "last_run m0 = None"
  using assms unfolding Monitor_init_def and_then_Inr by auto

lemma counters_invariant_init:
  "Monitor_init py host clk nm cfg = Inr m0 \<Longrightarrow> counters_invariant m0"
  by (simp add: counters_invariant_def Monitor_init_fields)

lemma counters_invariant_step:
  "counters_invariant m \<Longrightarrow> counters_invariant (apply_operation operation m)"
  by (cases operation)
     (auto simp add: counters_invariant_def record_fail_fields record_success_fields
        record_skip_fields)

lemma counters_invariant_run:
  "counters_invariant m \<Longrightarrow> counters_invariant (run_operations ops m)"
  by (induction ops arbitrary: m)
     (simp_all add: run_operations_Nil run_operations_Cons counters_invariant_step)

lemma counters_invariant_state:
  "counters_invariant m \<Longrightarrow> state_invariant m \<and> failed_beyond_tolerance m"
  by (cases "state m") (auto simp add: counters_invariant_def state_invariant_def
        failed_beyond_tolerance_def)

text \<open>
  Claim C6. The invariant holds in the state the constructor builds and after every
  run of \<^verbatim>\<open>record_fail\<close>, \<^verbatim>\<open>record_success\<close> and
  \<^verbatim>\<open>record_skip\<close> calls from there, in any order, and in these states \<open>FAILED\<close>
  comes with an error count above the tolerance. Each of the three operations preserves
  the invariant from any state whose error count is not negative, and an operation
  that leaves the error count at 0 leaves a state other than \<open>FAILED\<close>.
\<close>

theorem state_invariant_preserved:
  "(Monitor_init py host clk nm cfg = Inr m0 \<longrightarrow>
      state_invariant m0 \<and> state_invariant (run_operations ops m0) \<and>
      failed_beyond_tolerance (run_operations ops m0))
   \<and> (0 \<le> error_count m \<and> state_invariant m \<longrightarrow>
        state_invariant (apply_operation operation m) \<and>
        0 \<le> error_count (apply_operation operation m))
   \<and> (0 \<le> error_count m \<and> error_count (apply_operation operation m) = 0 \<longrightarrow>
        state (apply_operation operation m) \<noteq> FAILED)"
proof (intro conjI impI)
  assume init: "Monitor_init py host clk nm cfg = Inr m0"
  then have c0: "counters_invariant m0" by (rule counters_invariant_init)
  then show "state_invariant m0" by (simp add: counters_invariant_state)
  from c0 have "counters_invariant (run_operations ops m0)" by (rule counters_invariant_run)
  then show "state_invariant (run_operations ops m0)"
    and "failed_beyond_tolerance (run_operations ops m0)"
    by (simp_all add: counters_invariant_state)
next
  assume a: "0 \<le> error_count m \<and> state_invariant m"
  then show "state_invariant (apply_operation operation m)"
    by (cases operation)
       (auto simp add: state_invariant_def record_fail_fields record_success_fields
          record_skip_fields)
  from a show "0 \<le> error_count (apply_operation operation m)"
    by (cases operation)
       (auto simp add: record_fail_fields record_success_fields record_skip_fields)
next
  assume "0 \<le> error_count m \<and> error_count (apply_operation operation m) = 0"
  then show "state (apply_operation operation m) \<noteq> FAILED"
    by (cases operation)
       (auto simp add: record_fail_fields record_success_fields record_skip_fields)
qed

text \<open>
  The example monitor: as constructed; after a failure within its tolerance and a
  success; and after three failures in a row, which exceed its tolerance of 2 and leave
  it \<open>FAILED\<close>, followed by the success that resets the error count and the state.
\<close>

theorem state_invariant_preserved_witness:
  "Monitor_init example_builtins ''box.example.org'' example_clock ''web'' example_config
     = Inr example_monitor
   \<and> state_invariant example_monitor
   \<and> state_invariant (run_operations
        [RecordFail example_clock ''down'', RecordSuccess example_clock ''up'']
        example_monitor)
   \<and> failed_beyond_tolerance (run_operations
        [RecordFail example_clock ''down'', RecordSuccess example_clock ''up'']
        example_monitor)
   \<and> 0 \<le> error_count example_monitor
   \<and> state_invariant (apply_operation (RecordSuccess example_clock ''up'') example_monitor)
   \<and> error_count (apply_operation (RecordSuccess example_clock ''up'') example_monitor) = 0
   \<and> state (apply_operation (RecordSuccess example_clock ''up'') example_monitor) \<noteq> FAILED
   \<and> state (run_operations three_failures example_monitor) = FAILED
   \<and> error_count (run_operations three_failures example_monitor) = 3
   \<and> tolerance (run_operations three_failures example_monitor) = 2
   \<and> state_invariant (run_operations three_failures example_monitor)
   \<and> failed_beyond_tolerance (run_operations three_failures example_monitor)
   \<and> error_count (apply_operation (RecordSuccess (tick 4) ''up'')
        (run_operations three_failures example_monitor)) = 0
   \<and> state (apply_operation (RecordSuccess (tick 4) ''up'')
        (run_operations three_failures example_monitor)) = OK
   \<and> state_invariant (apply_operation (RecordSuccess (tick 4) ''up'')
        (run_operations three_failures example_monitor))"
proof -
  have failed: "state (run_operations three_failures example_monitor) = FAILED"
    "error_count (run_operations three_failures example_monitor) = 3"
    "tolerance (run_operations three_failures example_monitor) = 2"
    by code_simp+
  have first:
    "state_invariant example_monitor
     \<and> state_invariant (run_operations
          [RecordFail example_clock ''down'', RecordSuccess example_clock ''up'']
          example_monitor)
     \<and> failed_beyond_tolerance (run_operations
          [RecordFail example_clock ''down'', RecordSuccess example_clock ''up'']
          example_monitor)
     \<and> 0 \<le> error_count example_monitor
     \<and> state_invariant (apply_operation (RecordSuccess example_clock ''up'') example_monitor)
     \<and> error_count (apply_operation (RecordSuccess example_clock ''up'') example_monitor) = 0
     \<and> state (apply_operation (RecordSuccess example_clock ''up'') example_monitor) \<noteq> FAILED"
    using example_monitor_constructed
      state_invariant_preserved [of example_builtins "''box.example.org''" example_clock
        "''web''" example_config example_monitor
        "[RecordFail example_clock ''down'', RecordSuccess example_clock ''up'']"
        example_monitor "RecordSuccess example_clock ''up''"]
    by (simp add: record_success_fields) (simp add: example_monitor_def)
  have second:
    "state_invariant (run_operations three_failures example_monitor)
     \<and> failed_beyond_tolerance (run_operations three_failures example_monitor)
     \<and> state_invariant (apply_operation (RecordSuccess (tick 4) ''up'')
          (run_operations three_failures example_monitor))"
    using example_monitor_constructed failed
      state_invariant_preserved [of example_builtins "''box.example.org''" example_clock
        "''web''" example_config example_monitor three_failures
        "run_operations three_failures example_monitor" "RecordSuccess (tick 4) ''up''"]
    by simp
  show ?thesis
    using example_monitor_constructed failed first second
    by (simp add: record_success_fields)
qed

section \<open>The scheduling gate\<close>

lemma should_run_returns:
  "run_stamped m \<Longrightarrow> \<exists>b m'. should_run now m = Inr (b, m') \<and> run_stamped m'"
  by (auto simp add: run_stamped_def should_run_def Let_def)

lemma run_stamped_init: "Monitor_init py host clk nm cfg = Inr m0 \<Longrightarrow> run_stamped m0"
  by (simp add: run_stamped_def Monitor_init_fields)

lemma run_stamped_hooks:
  "run_stamped (attempt_recover run m) = run_stamped m"
  "run_stamped (run_recovered run m) = run_stamped m"
  by (auto simp add: run_stamped_def attempt_recover_def run_recovered_def
        split: option.splits proc_result.splits)

lemma run_stamped_operation: "run_stamped m \<Longrightarrow> run_stamped (apply_operation operation m)"
  by (cases operation)
     (auto simp add: run_stamped_def record_fail_def record_success_def record_skip_def
        add_unavailable_seconds_def Let_def split_beta split: option.splits)

text \<open>
  Claim C2, as the code has it. The five steps of \<^verbatim>\<open>should_run\<close>, in order:
  a set \<open>force_run\<close> is cleared, the run stamped, the answer true; else a gap of 0
  stamps and answers true; else a positive error count stamps and answers true; else a
  last run of 0, the code's mark of no run recorded so far, stamps and answers true;
  otherwise the answer is whether \<open>now - last_run \<ge> minimum_gap\<close>, and the run is
  stamped when it is. An answer of false leaves the object as it was, and an answer of
  true changes \<open>last_run\<close> and \<open>force_run\<close> only. With a gap of 10 and no error
  counted, a call that answers true at a time other than 0 is followed by false three
  seconds later, while a call that answers true at time 0 stamps the mark of no run
  and is followed by true at any time; with a positive error count, or a gap of 0,
  every call answers true. The call returns in every state in which \<open>force_run\<close> is
  set or a last run is recorded.
\<close>

theorem should_run_gate:
  "(force_run m \<longrightarrow>
      should_run now m = Inr (True, m\<lparr>force_run := False, last_run := Some now\<rparr>))
   \<and> (\<not> force_run m \<and> minimum_gap m = 0 \<longrightarrow>
        should_run now m = Inr (True, m\<lparr>last_run := Some now\<rparr>))
   \<and> (\<not> force_run m \<and> minimum_gap m \<noteq> 0 \<and> error_count m > 0 \<longrightarrow>
        should_run now m = Inr (True, m\<lparr>last_run := Some now\<rparr>))
   \<and> (\<not> force_run m \<and> minimum_gap m \<noteq> 0 \<and> \<not> error_count m > 0 \<and> last_run m = Some 0 \<longrightarrow>
        should_run now m = Inr (True, m\<lparr>last_run := Some now\<rparr>))
   \<and> (\<not> force_run m \<and> minimum_gap m \<noteq> 0 \<and> \<not> error_count m > 0 \<and> last_run m = Some lr \<and>
        lr \<noteq> 0 \<longrightarrow>
        should_run now m =
          Inr (now - lr \<ge> minimum_gap m,
               if now - lr \<ge> minimum_gap m then m\<lparr>last_run := Some now\<rparr> else m))
   \<and> (should_run now m = Inr (False, m') \<longrightarrow> m' = m)
   \<and> (should_run now m = Inr (True, m') \<longrightarrow>
        m' = m\<lparr>force_run := False, last_run := Some now\<rparr>)
   \<and> (minimum_gap m = 10 \<and> error_count m = 0 \<and> now \<noteq> 0 \<and>
        should_run now m = Inr (True, m') \<longrightarrow>
        should_run (now + 3) m' = Inr (False, m'))
   \<and> (minimum_gap m \<noteq> 0 \<and> error_count m = 0 \<and> should_run 0 m = Inr (True, m') \<longrightarrow>
        should_run later m' = Inr (True, m'\<lparr>last_run := Some later\<rparr>))
   \<and> (run_stamped m \<and> (error_count m > 0 \<or> minimum_gap m = 0) \<longrightarrow>
        (\<exists>m''. should_run now m = Inr (True, m'')))
   \<and> (run_stamped m \<longrightarrow> (\<exists>b m''. should_run now m = Inr (b, m'') \<and> run_stamped m''))"
proof -
  have true_result: "m' = m\<lparr>force_run := False, last_run := Some now\<rparr>"
    if "should_run now m = Inr (True, m')"
    using that
    by (auto simp add: should_run_def Let_def split: if_splits option.splits)
  have again: "should_run (now + 3) m' = Inr (False, m')"
    if "minimum_gap m = 10" "error_count m = 0" "now \<noteq> 0" "should_run now m = Inr (True, m')"
  proof -
    from that(4) have "m' = m\<lparr>force_run := False, last_run := Some now\<rparr>"
      by (rule true_result)
    with that(1-3) show ?thesis by (simp add: should_run_def)
  qed
  have zero: "should_run later m' = Inr (True, m'\<lparr>last_run := Some later\<rparr>)"
    if "minimum_gap m \<noteq> 0" "error_count m = 0" "should_run 0 m = Inr (True, m')"
  proof -
    from that(3) have "m' = m\<lparr>force_run := False, last_run := Some 0\<rparr>"
      by (auto simp add: should_run_def Let_def split: if_splits option.splits)
    with that(1,2) show ?thesis by (simp add: should_run_def)
  qed
  have failing_or_free: "\<exists>m''. should_run now m = Inr (True, m'')"
    if "run_stamped m" "error_count m > 0 \<or> minimum_gap m = 0"
    using that by (auto simp add: should_run_def run_stamped_def)
  show ?thesis
    apply (intro conjI impI)
    subgoal by (simp add: should_run_def)
    subgoal by (simp add: should_run_def)
    subgoal by (simp add: should_run_def)
    subgoal by (simp add: should_run_def)
    subgoal by (simp add: should_run_def)
    subgoal by (auto simp add: should_run_def Let_def split: if_splits option.splits)
    subgoal by (rule true_result)
    subgoal using again by blast
    subgoal using zero by blast
    subgoal using failing_or_free by blast
    subgoal by (rule should_run_returns)
    done
qed

text \<open>The example monitor on its first tick (step 1), then three and ten seconds
  later (step 5), variants of it for steps 2, 3 and 4, and its first tick at time 0
  with the call that follows.\<close>

theorem should_run_gate_witness:
  "force_run example_monitor
   \<and> should_run 1000 example_monitor =
       Inr (True, example_monitor\<lparr>force_run := False, last_run := Some 1000\<rparr>)
   \<and> should_run 1003 (example_monitor\<lparr>force_run := False, last_run := Some 1000\<rparr>) =
       Inr (False, example_monitor\<lparr>force_run := False, last_run := Some 1000\<rparr>)
   \<and> should_run 1010 (example_monitor\<lparr>force_run := False, last_run := Some 1000\<rparr>) =
       Inr (True, example_monitor\<lparr>force_run := False, last_run := Some 1010\<rparr>)
   \<and> should_run 1003 (example_monitor\<lparr>force_run := False, last_run := Some 1000,
         minimum_gap := 0\<rparr>) =
       Inr (True, example_monitor\<lparr>force_run := False, last_run := Some 1003,
         minimum_gap := 0\<rparr>)
   \<and> should_run 1003 (example_monitor\<lparr>force_run := False, last_run := Some 1000,
         error_count := 1\<rparr>) =
       Inr (True, example_monitor\<lparr>force_run := False, last_run := Some 1003,
         error_count := 1\<rparr>)
   \<and> should_run 1003 (example_monitor\<lparr>force_run := False, last_run := Some 0\<rparr>) =
       Inr (True, example_monitor\<lparr>force_run := False, last_run := Some 1003\<rparr>)
   \<and> should_run 0 example_monitor =
       Inr (True, example_monitor\<lparr>force_run := False, last_run := Some 0\<rparr>)
   \<and> should_run 7 (example_monitor\<lparr>force_run := False, last_run := Some 0\<rparr>) =
       Inr (True, example_monitor\<lparr>force_run := False, last_run := Some 7\<rparr>)"
  using
    should_run_gate [of example_monitor 1000 0
      "example_monitor\<lparr>force_run := False, last_run := Some 1000\<rparr>" 7]
    should_run_gate [of "example_monitor\<lparr>force_run := False, last_run := Some 1000\<rparr>"
      1003 1000 "example_monitor\<lparr>force_run := False, last_run := Some 1000\<rparr>" 7]
    should_run_gate [of "example_monitor\<lparr>force_run := False, last_run := Some 1000\<rparr>"
      1010 1000 "example_monitor\<lparr>force_run := False, last_run := Some 1010\<rparr>" 7]
    should_run_gate [of "example_monitor\<lparr>force_run := False, last_run := Some 1000,
      minimum_gap := 0\<rparr>" 1003 1000 example_monitor 7]
    should_run_gate [of "example_monitor\<lparr>force_run := False, last_run := Some 1000,
      error_count := 1\<rparr>" 1003 1000 example_monitor 7]
    should_run_gate [of "example_monitor\<lparr>force_run := False, last_run := Some 0\<rparr>"
      1003 0 example_monitor 7]
    should_run_gate [of example_monitor 0 0
      "example_monitor\<lparr>force_run := False, last_run := Some 0\<rparr>" 7]
  by (simp add: example_monitor_def)

text \<open>
  The claim as the specification words it (with a gap of 10 and no error counted, any
  two calls three seconds apart answer true, then false) fails when the first call
  reads epoch second 0: the run is stamped 0, which the next call takes for no run
  recorded, so it answers true and stamps again.
\<close>

theorem should_run_epoch_zero:
  "minimum_gap example_monitor = 10 \<and> error_count example_monitor = 0
   \<and> should_run 0 example_monitor =
       Inr (True, example_monitor\<lparr>force_run := False, last_run := Some 0\<rparr>)
   \<and> should_run 3 (example_monitor\<lparr>force_run := False, last_run := Some 0\<rparr>) =
       Inr (True, example_monitor\<lparr>force_run := False, last_run := Some 3\<rparr>)"
  by (simp add: should_run_def example_monitor_def)

section \<open>The recovery hooks\<close>

lemma hooks_invariant_init:
  "Monitor_init py host clk nm cfg = Inr m0 \<Longrightarrow> hooks_invariant m0"
  by (simp add: hooks_invariant_def Monitor_init_fields)

lemma hooks_invariant_operation:
  "hooks_invariant m \<Longrightarrow> hooks_invariant (apply_operation operation m)"
  by (cases operation)
     (auto simp add: hooks_invariant_def record_fail_def record_success_def record_skip_def
        add_unavailable_seconds_def Let_def split_beta split: option.splits)

lemma hooks_invariant_hooks:
  "hooks_invariant m \<Longrightarrow> hooks_invariant (attempt_recover run m)"
  "hooks_invariant m \<Longrightarrow> hooks_invariant (run_recovered run m)"
  by (auto simp add: hooks_invariant_def attempt_recover_def run_recovered_def
        split: option.splits proc_result.splits)

lemma hooks_invariant_should_run:
  "hooks_invariant m \<Longrightarrow> should_run now m = Inr (b, m') \<Longrightarrow> hooks_invariant m'"
  by (auto simp add: hooks_invariant_def should_run_def Let_def
        split: if_splits option.splits)

lemma hooks_invariant_call:
  assumes "hooks_invariant m" "apply_call c m = Inr m'"
  shows "hooks_invariant m'"
proof (cases c)
  case (Record operation)
  with assms show ?thesis by (auto simp add: hooks_invariant_operation)
next
  case (ShouldRun now)
  with assms show ?thesis
    by (cases "should_run now m")
       (auto simp add: and_then_def dest: hooks_invariant_should_run)
next
  case (AttemptRecover run)
  with assms show ?thesis by (auto simp add: hooks_invariant_hooks)
next
  case (RunRecovered run)
  with assms show ?thesis by (auto simp add: hooks_invariant_hooks)
next
  case ResetDependencies
  with assms show ?thesis by (auto simp add: hooks_invariant_def reset_dependencies_def)
next
  case (DependencySucceeded dependency)
  with assms show ?thesis by (auto simp add: hooks_invariant_def dependency_succeeded_def)
qed

lemma hooks_invariant_calls:
  "hooks_invariant m \<Longrightarrow> run_calls cs m = Inr m' \<Longrightarrow> hooks_invariant m'"
proof (induction cs arbitrary: m)
  case Nil
  then show ?case by simp
next
  case (Cons c cs)
  from Cons.prems(2) obtain m1 where
    m1: "apply_call c m = Inr m1" "run_calls cs m1 = Inr m'"
    by (auto simp add: and_then_Inr)
  from Cons.prems(1) m1(1) have "hooks_invariant m1" by (rule hooks_invariant_call)
  then show ?case using m1(2) by (rule Cons.IH)
qed

lemma hooks_invariant_history:
  "history py host clk nm cfg cs = Inr m \<Longrightarrow> hooks_invariant m"
  unfolding history_def and_then_Inr
  by (auto dest: hooks_invariant_init hooks_invariant_calls)

text \<open>
  Claim C8. In every state \<open>m\<close> that a history of calls reaches from the
  constructor, \<^verbatim>\<open>attempt_recover\<close> leaves every field of the monitor,
  \<open>recover_info\<close> included, as it was whenever no recover command is configured or
  \<^verbatim>\<open>first_failure()\<close> is false, and \<^verbatim>\<open>run_recovered\<close> does so whenever
  no recovered command is configured or \<^verbatim>\<open>all_better_now()\<close> is false. The
  same holds in any state \<open>s\<close> whose info fields are empty where their command is
  missing, and with a command configured in any state at all. (Without a command the
  hook assigns the empty string to its info field, which is what that field holds.)
\<close>

theorem hooks_without_effect:
  "(history py host clk nm cfg cs = Inr m \<and>
      (recover_command m = None \<or> \<not> first_failure m) \<longrightarrow>
      attempt_recover run m = m)
   \<and> (history py host clk nm cfg cs = Inr m \<and>
        (recovered_command m = None \<or> \<not> all_better_now m) \<longrightarrow>
        run_recovered run m = m)
   \<and> (hooks_invariant s \<and> (recover_command s = None \<or> \<not> first_failure s) \<longrightarrow>
        attempt_recover run s = s)
   \<and> (hooks_invariant s \<and> (recovered_command s = None \<or> \<not> all_better_now s) \<longrightarrow>
        run_recovered run s = s)
   \<and> (recover_command s \<noteq> None \<and> \<not> first_failure s \<longrightarrow> attempt_recover run s = s)
   \<and> (recovered_command s \<noteq> None \<and> \<not> all_better_now s \<longrightarrow> run_recovered run s = s)
   \<and> (recover_command s = None \<longrightarrow> attempt_recover run s = s\<lparr>recover_info := []\<rparr>)
   \<and> (recovered_command s = None \<longrightarrow> run_recovered run s = s\<lparr>recovered_info := []\<rparr>)"
proof -
  have invariant: "attempt_recover run x = x"
    if "hooks_invariant x" "recover_command x = None \<or> \<not> first_failure x" for x
    using that
    by (auto simp add: attempt_recover_def hooks_invariant_def split: option.splits)
  have invariant': "run_recovered run x = x"
    if "hooks_invariant x" "recovered_command x = None \<or> \<not> all_better_now x" for x
    using that
    by (auto simp add: run_recovered_def hooks_invariant_def split: option.splits)
  have reached: "hooks_invariant m" if "history py host clk nm cfg cs = Inr m"
    using that by (rule hooks_invariant_history)
  show ?thesis
    apply (intro conjI impI)
    subgoal using invariant reached by blast
    subgoal using invariant' reached by blast
    subgoal using invariant by blast
    subgoal using invariant' by blast
    subgoal by (auto simp add: attempt_recover_def split: option.splits)
    subgoal by (auto simp add: run_recovered_def split: option.splits)
    subgoal by (simp add: attempt_recover_def)
    subgoal by (simp add: run_recovered_def)
    done
qed

text \<open>
  The example monitor after its first tick and three failures, with no command
  configured, on the tick where \<^verbatim>\<open>first_failure()\<close> is true; and the example
  monitor with a recover command after one failure, within its tolerance.
\<close>

theorem hooks_without_effect_witness:
  "history example_builtins ''box.example.org'' example_clock ''web'' example_config
       (ShouldRun 1000 # map Record three_failures) = Inr example_failed
   \<and> recover_command example_failed = None \<and> first_failure example_failed
   \<and> recovered_command example_failed = None
   \<and> attempt_recover (\<lambda>argv. Returned 0) example_failed = example_failed
   \<and> run_recovered (\<lambda>argv. Returned 0) example_failed = example_failed
   \<and> history example_builtins ''box.example.org'' example_clock ''web''
        example_config_recover [ShouldRun 1000, Record (RecordFail (tick 1) ''down'')]
       = Inr example_failing_once
   \<and> recover_command example_failing_once = Some ''restart web''
   \<and> \<not> first_failure example_failing_once
   \<and> attempt_recover (\<lambda>argv. Returned 0) example_failing_once = example_failing_once"
proof -
  have a: "history example_builtins ''box.example.org'' example_clock ''web'' example_config
       (ShouldRun 1000 # map Record three_failures) = Inr example_failed"
    by code_simp
  have b: "recover_command example_failed = None" "first_failure example_failed"
    "recovered_command example_failed = None"
    by (simp_all add: example_failed_def example_monitor_def first_failure_def)
  have c: "history example_builtins ''box.example.org'' example_clock ''web''
        example_config_recover [ShouldRun 1000, Record (RecordFail (tick 1) ''down'')]
       = Inr example_failing_once"
    by code_simp
  have d: "recover_command example_failing_once = Some ''restart web''"
    "\<not> first_failure example_failing_once"
    by (simp_all add: example_failing_once_def example_monitor_def first_failure_def)
  show ?thesis
    using a b c d
      hooks_without_effect [of example_builtins "''box.example.org''" example_clock
        "''web''" example_config "ShouldRun 1000 # map Record three_failures"
        example_failed "\<lambda>argv. Returned 0" example_failed]
      hooks_without_effect [of example_builtins "''box.example.org''" example_clock
        "''web''" example_config_recover
        "[ShouldRun 1000, Record (RecordFail (tick 1) ''down'')]"
        example_failing_once "\<lambda>argv. Returned 0" example_failing_once]
    by simp
qed

section \<open>Formatting an elapsed time\<close>

text \<open>
  The two comparisons of \<^verbatim>\<open>from_timedelta\<close> are strict, so a count of exactly
  3600 seconds is not divided by 3600, and a count of exactly 60 seconds (also the 60
  left over after the hours) is not divided by 60. Everywhere else the function
  computes the decomposition above.
\<close>

lemma from_timedelta_decomposes:
  assumes "0 \<le> td_seconds td"
  shows "from_timedelta (Some td) = claimed_decomposition td \<longleftrightarrow>
           td_seconds td \<noteq> 3600 \<and> td_seconds td mod 3600 \<noteq> 60"
proof -
  define s where "s = td_seconds td"
  have s0: "0 \<le> s" using assms by (simp add: s_def)
  consider (big) "3600 < s" "60 < s mod 3600"
    | (big_small) "3600 < s" "s mod 3600 \<le> 60"
    | (hour) "s = 3600"
    | (mid) "60 < s" "s < 3600"
    | (small) "s \<le> 60"
    by linarith
  then have "from_timedelta (Some td) = claimed_decomposition td \<longleftrightarrow>
               s \<noteq> 3600 \<and> s mod 3600 \<noteq> 60"
  proof cases
    case big
    then show ?thesis
      by (simp add: from_timedelta_def claimed_decomposition_def divmod_def s_def [symmetric])
  next
    case big_small
    have "0 \<le> s mod 3600" by simp
    with big_small have "(s mod 3600) div 60 = 0 \<longleftrightarrow> s mod 3600 \<noteq> 60"
      by (cases "s mod 3600 = 60") simp_all
    moreover from big_small have "s mod 3600 \<noteq> 60 \<Longrightarrow> s mod 3600 mod 60 = s mod 3600"
      by simp
    ultimately show ?thesis
      using big_small
      by (auto simp add: from_timedelta_def claimed_decomposition_def divmod_def
            s_def [symmetric])
  next
    case hour
    then show ?thesis
      by (simp add: from_timedelta_def claimed_decomposition_def divmod_def s_def [symmetric])
  next
    case mid
    with s0 have "s div 3600 = 0" "s mod 3600 = s"
      by simp_all
    with mid show ?thesis
      by (simp add: from_timedelta_def claimed_decomposition_def divmod_def s_def [symmetric])
  next
    case small
    with s0 have a: "s div 3600 = 0" "s mod 3600 = s"
      by simp_all
    from small s0 have "s div 60 = 0 \<longleftrightarrow> s \<noteq> 60"
      by (cases "s = 60") simp_all
    moreover from small s0 have "s \<noteq> 60 \<Longrightarrow> s mod 60 = s"
      by simp
    ultimately show ?thesis
      using small a
      by (auto simp add: from_timedelta_def claimed_decomposition_def divmod_def
            s_def [symmetric])
  qed
  then show ?thesis by (simp add: s_def)
qed

lemma UpDownTime_str_example:
  "UpDownTime_str
     (from_timedelta (Some \<lparr>td_days = 1, td_seconds = 7384, td_microseconds = 0\<rparr>))
   = ''1+02:03:04''"
  by code_simp

text \<open>
  Claim C7 at an elapsed time of exactly one hour: the code returns 0 hours, 60
  minutes and 0 seconds, printed \<open>0+00:60:00\<close>, where the decomposition of the claim
  is 1 hour, 0 minutes and 0 seconds, printed \<open>0+01:00:00\<close>.
\<close>

theorem from_timedelta_one_hour:
  "from_timedelta (Some one_hour) = \<lparr>days = 0, hours = 0, minutes = 60, seconds = 0\<rparr>
   \<and> UpDownTime_str (from_timedelta (Some one_hour)) = ''0+00:60:00''
   \<and> claimed_decomposition one_hour = \<lparr>days = 0, hours = 1, minutes = 0, seconds = 0\<rparr>
   \<and> UpDownTime_str (claimed_decomposition one_hour) = ''0+01:00:00''"
  by code_simp

section \<open>The codec round trip\<close>























lemma unknown_state_name_raises:
  "json_loads (JObj [(MONITORSTATE_MAGIC_TOKEN, JStr ''BOGUS'')])
     = (Inl (PyKeyError ''BOGUS'') :: error + unit pyval)"
  by (simp add: json_loads_def object_pairs_hook_def is_str_def str_of_def state_by_name_def
        DATETIME_MAGIC_TOKEN_def MONITORSTATE_MAGIC_TOKEN_def)

section \<open>When get\_config\_option raises\<close>

lemma int_list_None: "int_list py xs = None \<longleftrightarrow> list_ex (\<lambda>x. py_int py x = None) xs"
  by (induction xs) (auto split: option.splits)

lemma check_range_cases:
  "check_range py kw n = Inr () \<longleftrightarrow> \<not> outside_range py kw n"
  "check_range py kw n = Inl e \<longleftrightarrow>
     outside_range py kw n \<and>
     e = Raised (exception kw)
           (if minimum kw \<noteq> None \<and> num_less py n (the (minimum kw)) then BelowMinimum
            else AboveMaximum)"
  by (auto simp add: check_range_def outside_range_def split: option.splits)

lemma convert_str_raises:
  "isl (convert_str py kw s) \<longleftrightarrow>
     empty_refused kw (PStr s) \<or> parse_fails py kw (PStr s) \<or> out_of_range py kw (PStr s)"
proof -
  have r: "isl (case check_range py kw n of Inl e \<Rightarrow> Inl e | Inr u \<Rightarrow> Inr w)
             \<longleftrightarrow> outside_range py kw n" for n and w :: "'a pyval"
    by (auto simp add: check_range_def outside_range_def split: option.splits)
  show ?thesis
    by (auto simp add: convert_str_def empty_refused_def parse_fails_def out_of_range_def
          is_str_def str_of_def Let_def r int_list_None [symmetric] split: option.splits)
qed

lemma convert_str_error:
  "convert_str py kw s = Inl e \<Longrightarrow> \<exists>p. e = Raised (exception kw) p"
  by (auto simp add: convert_str_def Let_def check_range_def
        split: if_splits option.splits sum.splits)

lemma convert_str_value:
  "convert_str py kw s = Inr r \<Longrightarrow> r = converted py kw (PStr s)"
  by (auto simp add: convert_str_def converted_def is_str_def str_of_def Let_def
        split: if_splits option.splits sum.splits)

lemma check_allowed_cases:
  "isl (check_allowed py kw v) \<longleftrightarrow> not_allowed py kw v"
  "check_allowed py kw v = Inl e \<Longrightarrow> e = Raised (exception kw) NotAllowed"
  "check_allowed py kw v = Inr r \<Longrightarrow> r = v"
  by (auto simp add: check_allowed_def not_allowed_def is_list_def list_of_def list_ex_iff
        list_all_iff split: pyval.splits option.splits if_splits)

text \<open>
  Claim C9, as the code has it. \<^verbatim>\<open>get_config_option\<close> raises exactly when
  the options are not a dictionary, or one of the four conditions of the specification
  holds, or the value is an empty text refused by \<^verbatim>\<open>allow_empty=False\<close>; what
  it raises is the supplied exception class; and what it returns otherwise is the value
  found, converted to the required type.
\<close>

theorem get_config_option_raises:
  "(isl (get_config_option py opts key kw) \<longleftrightarrow>
      \<not> is_dict opts \<or> claimed_raise py opts key kw \<or>
      empty_refused kw (resolved_value opts key kw))
   \<and> (get_config_option py opts key kw = Inl e \<longrightarrow>
        (\<exists>p. e = Raised (exception kw) p))
   \<and> (get_config_option py opts key kw = Inr r \<longrightarrow>
        r = converted py kw (resolved_value opts key kw))"
proof (cases opts)
  case (PDict items)
  define v where "v = resolved_value opts key kw"
  have iv: "resolved_value (PDict items) key kw =
              (case map_of items key of Some x \<Rightarrow> x | None \<Rightarrow> default_value kw)"
    by (simp add: resolved_value_def items_of_def)
  define c where "c = (case v of
                 PStr s \<Rightarrow> if required_type kw \<noteq> [] then convert_str py kw s else Inr v
               | _ \<Rightarrow> Inr v)"
  have g: "get_config_option py opts key kw =
             (if required kw \<and> v = PNone then Inl (Raised (exception kw) IsMissing)
              else case c of Inl e \<Rightarrow> Inl e | Inr v' \<Rightarrow> check_allowed py kw v')"
    unfolding get_config_option_def v_def c_def iv Let_def PDict
    by simp
  have c_raises: "isl c \<longleftrightarrow> empty_refused kw v \<or> parse_fails py kw v \<or> out_of_range py kw v"
  proof (cases v)
    case (PStr s)
    then show ?thesis
      by (cases "required_type kw = []")
         (auto simp add: c_def convert_str_raises empty_refused_def parse_fails_def
            out_of_range_def)
  qed (simp_all add: c_def empty_refused_def parse_fails_def out_of_range_def is_str_def)
  have c_error: "\<exists>p. e' = Raised (exception kw) p" if "c = Inl e'" for e'
    using that
    by (cases v) (auto simp add: c_def dest: convert_str_error split: if_splits)
  have c_value: "r' = converted py kw v" if "c = Inr r'" for r'
    using that
    by (cases v; cases "required_type kw = []")
       (auto simp add: c_def converted_def is_str_def dest: convert_str_value)
  have raises: "isl (get_config_option py opts key kw) \<longleftrightarrow>
      missing_required kw v \<or> parse_fails py kw v \<or> out_of_range py kw v \<or>
      not_allowed py kw (converted py kw v) \<or> empty_refused kw v"
  proof (cases "required kw \<and> v = PNone")
    case True
    then show ?thesis by (simp add: g missing_required_def)
  next
    case False
    show ?thesis
    proof (cases c)
      case (Inl e')
      then have "isl c" by simp
      with False Inl show ?thesis
        using c_raises by (auto simp add: g missing_required_def)
    next
      case (Inr r')
      then have "\<not> isl c" by simp
      moreover from Inr have "r' = converted py kw v" by (rule c_value)
      ultimately show ?thesis
        using False Inr c_raises
        by (auto simp add: g missing_required_def check_allowed_cases)
    qed
  qed
  have error: "\<exists>p. e = Raised (exception kw) p"
    if "get_config_option py opts key kw = Inl e"
    using that c_error
    by (auto simp add: g dest: check_allowed_cases(2) split: if_splits sum.splits)
  have "value": "r = converted py kw v"
    if "get_config_option py opts key kw = Inr r"
    using that c_value
    by (auto simp add: g dest: check_allowed_cases(3) split: if_splits sum.splits)
  show ?thesis
    using raises error "value" PDict unfolding v_def
    by (auto simp add: claimed_raise_def Let_def is_dict_def)
qed (auto simp add: get_config_option_def is_dict_def)

text \<open>
  The example: an integer option below its minimum raises, and within the range and
  among the allowed integers it is returned as an integer; white space of any kind is
  stripped from the entries of a list before they are looked up among the allowed
  strings; and options that are not a dictionary raise.
\<close>

theorem get_config_option_raises_witness:
  "get_config_option example_builtins (PDict [(''tolerance'', PStr ''-1'')]) ''tolerance''
       (no_kwargs\<lparr>required_type := ''int'', minimum := Some (NInt 0)\<rparr>)
     = Inl (Raised ValueError BelowMinimum)
   \<and> claimed_raise example_builtins (PDict [(''tolerance'', PStr ''-1'')]) ''tolerance''
       (no_kwargs\<lparr>required_type := ''int'', minimum := Some (NInt 0)\<rparr>)
   \<and> get_config_option example_builtins (PDict [(''tolerance'', PStr ''2'')]) ''tolerance''
       (no_kwargs\<lparr>required_type := ''int'', minimum := Some (NInt 0),
          allowed_values := Some [PInt 1, PInt 2, PInt 3]\<rparr>)
     = Inr (PInt 2)
   \<and> \<not> claimed_raise example_builtins (PDict [(''tolerance'', PStr ''2'')]) ''tolerance''
       (no_kwargs\<lparr>required_type := ''int'', minimum := Some (NInt 0),
          allowed_values := Some [PInt 1, PInt 2, PInt 3]\<rparr>)
   \<and> get_config_option example_builtins (PDict [(''depend'', PStr [CHR 0xA0, CHR ''d'', CHR ''b''])])
       ''depend'' (no_kwargs\<lparr>required_type := ''[str]'', allowed_values := Some [PStr ''db'']\<rparr>)
     = Inr (PList [PStr ''db''])
   \<and> get_config_option example_builtins (PList []) ''tolerance'' no_kwargs
     = Inl (Raised ValueError NotADict)"
proof -
  let ?kw1 = "no_kwargs\<lparr>required_type := ''int'', minimum := Some (NInt 0)\<rparr> :: unit kwargs"
  let ?kw2 = "no_kwargs\<lparr>required_type := ''int'', minimum := Some (NInt 0),
          allowed_values := Some [PInt 1, PInt 2, PInt 3]\<rparr> :: unit kwargs"
  have a: "get_config_option example_builtins (PDict [(''tolerance'', PStr ''-1'')])
       ''tolerance'' ?kw1 = Inl (Raised ValueError BelowMinimum)"
    by code_simp
  have b: "get_config_option example_builtins (PDict [(''tolerance'', PStr ''2'')])
       ''tolerance'' ?kw2 = Inr (PInt 2)"
    by code_simp
  have c: "get_config_option example_builtins
       (PDict [(''depend'', PStr [CHR 0xA0, CHR ''d'', CHR ''b''])])
       ''depend'' (no_kwargs\<lparr>required_type := ''[str]'', allowed_values := Some [PStr ''db'']\<rparr>)
     = Inr (PList [PStr ''db''])"
    by code_simp
  have d: "get_config_option example_builtins (PList []) ''tolerance'' no_kwargs
     = Inl (Raised ValueError NotADict)"
    by code_simp
  have e: "\<not> empty_refused ?kw1 v" "\<not> empty_refused ?kw2 v" for v :: "unit pyval"
    by (simp_all add: empty_refused_def)
  have f: "is_dict (PDict items)" for items :: "(string \<times> unit pyval) list"
    by (simp add: is_dict_def)
  show ?thesis
    using a b c d e f
      get_config_option_raises [of example_builtins "PDict [(''tolerance'', PStr ''-1'')]"
        "''tolerance''" ?kw1 "Raised ValueError BelowMinimum" "PInt 2"]
      get_config_option_raises [of example_builtins "PDict [(''tolerance'', PStr ''2'')]"
        "''tolerance''" ?kw2 "Raised ValueError BelowMinimum" "PInt 2"]
    by simp
qed

text \<open>
  The claim as the specification words it fails for an option that is present with
  the empty text, of type string, when empty values are not allowed: none of the four
  conditions holds and the function raises.
\<close>

theorem get_config_option_empty_raises:
  "\<not> claimed_raise example_builtins (PDict [(''name'', PStr [])]) ''name''
       (no_kwargs\<lparr>allow_empty := False\<rparr>)
   \<and> get_config_option example_builtins (PDict [(''name'', PStr [])]) ''name''
       (no_kwargs\<lparr>allow_empty := False\<rparr>)
     = Inl (Raised ValueError CannotBeEmpty)"
  by (simp add: claimed_raise_def resolved_value_def items_of_def missing_required_def
        parse_fails_def out_of_range_def not_allowed_def converted_def
        get_config_option_def convert_str_def no_kwargs_def is_str_def str_of_def)

end
